theory Spec2Isabelle
  imports Complex_Main "HOL-Library.Log_Nat"
begin

section \<open>Conventions of the embedding\<close>

text \<open>
  The theory embeds the typing-session core of the game: \<^verbatim>\<open>GameService\<close>
  (services/game.ts), the parts of \<^verbatim>\<open>WordService\<close> it calls, and the error
  classifier of \<^verbatim>\<open>ErrorFeedbackService\<close> (services/error-feedback.ts).

  \<^item> A JavaScript \<^verbatim>\<open>number\<close> is a double. One that only ever holds a count is an
    \<open>int\<close>; one that can hold a fraction (the multiplier, a time in seconds, the session
    clock) is the \<open>rat\<close> equal to the double. An operation whose result need not be a
    double is followed by \<open>roundToDouble\<close>, the rounding of IEEE 754 (to the nearest
    double, a tie to the even significand): the division by 1000 of the elapsed time, the
    subtraction and the multiplication of the time bonus, the product with
    \<^verbatim>\<open>Math.random()\<close>. Sums and products of counts, halves of counts and the
    multiplier are doubles as they are (all stay far below \<open>2^53\<close>) and are written
    without it.
  \<^item> \<^verbatim>\<open>Date.now()\<close> is an \<open>int\<close> of milliseconds handed to each operation, and
    \<^verbatim>\<open>Math.random()\<close> a \<open>rat\<close> handed to each operation that draws a word; the
    runtime guarantees a double with \<open>0 \<le> rnd < 1\<close>.
  \<^item> A string is a \<open>char list\<close>, each \<open>char\<close> a code unit below 256 (Latin-1);
    \<^verbatim>\<open>toLowerCase\<close> and the regular expression class \<^verbatim>\<open>\s\<close> are the
    JavaScript ones on these code units.
  \<^item> A \<^verbatim>\<open>throw\<close> is the \<open>Inl\<close> of a result, returned together with the service
    as the throw leaves it.
  \<^item> The two RxJS \<^verbatim>\<open>interval\<close> subscriptions and the \<^verbatim>\<open>setTimeout\<close> callback
    are entries of the service record; one emission of an interval is one call of
    \<open>gameTimerFire\<close> or \<open>wordTimerFire\<close>.
\<close>

section \<open>Data model (services/game.ts)\<close>

record GameState =
  isPlaying :: bool
  isGameOver :: bool
  isPaused :: bool
  currentWord :: string
  userInput :: string
  score :: int
  correctWords :: int
  totalWords :: int
  accuracy :: int
  wpm :: int
  timeRemaining :: rat
  streak :: int
  multiplier :: rat
  gameTimeTotal :: int
  wordsTyped :: "string list"
  mistakes :: int

text \<open>Of \<^verbatim>\<open>CustomText\<close> the session core reads \<^verbatim>\<open>id\<close> and \<^verbatim>\<open>content\<close> only.\<close>

record CustomText =
  text_id :: string
  content :: string

text \<open>\<^verbatim>\<open>isCustomMode\<close> is optional in the source and only tested for truthiness:
  \<^verbatim>\<open>undefined\<close> is \<open>False\<close> here.\<close>

record GameSettings =
  difficulty :: string
  category :: string
  gameDuration :: rat
  wordsPerGame :: int
  customText :: "CustomText option"
  isCustomMode :: bool

text \<open>\<^verbatim>\<open>Partial<GameSettings>\<close>: \<open>None\<close> is a key that is absent.\<close>

record PartialGameSettings =
  p_difficulty :: "string option"
  p_category :: "string option"
  p_gameDuration :: "rat option"
  p_wordsPerGame :: "int option"
  p_customText :: "CustomText option option"
  p_isCustomMode :: "bool option"

record TypingResult =
  isCorrect :: bool
  timeTaken :: rat
  word :: string

datatype error = CategoryNotFound string | DifficultyNotFound string

text \<open>
  The service. \<open>timerSubscription\<close> and \<open>wordTimerSubscription\<close> are the two handles the
  class keeps. \<open>liveGameTimers\<close> and \<open>liveWordTimers\<close> are the interval subscriptions that
  are neither unsubscribed nor completed (a word timer with the \<^verbatim>\<open>timePerWord\<close> its
  closure captured), \<open>nextSubscription\<close> the next fresh handle, and \<open>scheduledEndGame\<close>
  the delays in milliseconds of the pending \<^verbatim>\<open>setTimeout(() => this.endGame(), 100)\<close>.
\<close>

record GameService =
  gameState :: GameState
  currentSettings :: GameSettings
  gameStartTime :: int
  wordStartTime :: int
  customTextWords :: "string list"
  customTextIndex :: nat
  timerSubscription :: "nat option"
  wordTimerSubscription :: "nat option"
  liveGameTimers :: "nat list"
  liveWordTimers :: "(nat \<times> rat) list"
  nextSubscription :: nat
  scheduledEndGame :: "nat list"

definition getInitialState :: GameState where
  "getInitialState =
     \<lparr> isPlaying = False, isGameOver = False, isPaused = False,
       currentWord = [], userInput = [], score = 0, correctWords = 0, totalWords = 0,
       accuracy = 100, wpm = 0, timeRemaining = 60, streak = 0, multiplier = 1,
       gameTimeTotal = 60, wordsTyped = [], mistakes = 0 \<rparr>"

definition defaultSettings :: GameSettings where
  "defaultSettings =
     \<lparr> difficulty = ''Medium'', category = ''Common'', gameDuration = 60,
       wordsPerGame = 50, customText = None, isCustomMode = False \<rparr>"

text \<open>The service as its field initialisers leave it.\<close>

definition newGameService :: GameService where
  "newGameService =
     \<lparr> gameState = getInitialState, currentSettings = defaultSettings,
       gameStartTime = 0, wordStartTime = 0, customTextWords = [], customTextIndex = 0,
       timerSubscription = None, wordTimerSubscription = None,
       liveGameTimers = [], liveWordTimers = [], nextSubscription = 0,
       scheduledEndGame = [] \<rparr>"

text \<open>The phases of the specification, read off the three flags.\<close>

definition Running :: "GameState \<Rightarrow> bool" where
  "Running g \<longleftrightarrow> isPlaying g \<and> \<not> isPaused g \<and> \<not> isGameOver g"

definition Paused :: "GameState \<Rightarrow> bool" where
  "Paused g \<longleftrightarrow> isPlaying g \<and> isPaused g \<and> \<not> isGameOver g"

definition Over :: "GameState \<Rightarrow> bool" where
  "Over g \<longleftrightarrow> \<not> isPlaying g \<and> isGameOver g \<and> \<not> isPaused g"

definition Idle :: "GameState \<Rightarrow> bool" where
  "Idle g \<longleftrightarrow> \<not> isPlaying g \<and> \<not> isGameOver g \<and> \<not> isPaused g"

section \<open>Double-precision arithmetic\<close>

text \<open>\<open>2\<close> to an integer power.\<close>

definition pow2 :: "int \<Rightarrow> rat" where
  "pow2 e = (if 0 \<le> e then 2 ^ nat e else 1 / 2 ^ nat (- e))"

text \<open>The binary exponent of \<open>x \<noteq> 0\<close>: the \<open>e\<close> with \<open>2^e \<le> \<bar>x\<bar> < 2^(e+1)\<close>. With
  \<open>\<bar>x\<bar> = p / q\<close> the difference \<open>d\<close> of the bit lengths of \<open>p\<close> and \<open>q\<close> is \<open>e\<close> or
  \<open>e + 1\<close>.\<close>

definition binaryExponent :: "rat \<Rightarrow> int" where
  "binaryExponent x =
     (case quotient_of \<bar>x\<bar> of
        (p, q) \<Rightarrow> (let d = bitlen p - bitlen q in if pow2 d \<le> \<bar>x\<bar> then d else d - 1))"

text \<open>Rounding to the nearest integer, a tie to the even one.\<close>

definition roundHalfEven :: "rat \<Rightarrow> int" where
  "roundHalfEven x =
     (let n = \<lfloor>x\<rfloor>; r = x - of_int n
      in if r < 1 / 2 then n else if 1 / 2 < r then n + 1
         else if even n then n else n + 1)"

text \<open>
  The double nearest to \<open>x\<close>: a significand of 53 bits, so the unit in the last place
  is \<open>2^(e - 52)\<close>, with the exponent not below \<open>-1022\<close> (subnormal numbers). Every
  magnitude of this program is far below \<open>2^1024\<close>, so no result is infinite.
\<close>

definition roundToDouble :: "rat \<Rightarrow> rat" where
  "roundToDouble x =
     (if x = 0 then 0
      else (let e = max (binaryExponent x) (- 1022); ulp = pow2 (e - 52)
            in of_int (roundHalfEven (x / ulp)) * ulp))"

section \<open>WordService (services/word.ts)\<close>

record WordCategory =
  name :: string
  words :: "string list"

record DifficultyLevel =
  level_name :: string
  wordLength_min :: nat
  wordLength_max :: nat
  timePerWord :: rat
  description :: string

definition categories :: "WordCategory list" where
  "categories =
   [ \<lparr> name = ''Basic'', words =
        [''the'', ''and'', ''for'', ''are'', ''but'', ''not'', ''you'', ''all'', ''can'', ''had'',
         ''her'', ''was'', ''one'', ''our'', ''out'', ''day'', ''get'', ''has'', ''him'', ''his'',
         ''how'', ''man'', ''new'', ''now'', ''old'', ''see'', ''two'', ''way'', ''who'', ''boy'',
         ''did'', ''its'', ''let'', ''put'', ''say'', ''she'', ''too'', ''use''] \<rparr>,
     \<lparr> name = ''Common'', words =
        [''about'', ''after'', ''again'', ''before'', ''being'', ''below'', ''between'', ''both'',
         ''during'', ''each'', ''few'', ''from'', ''further'', ''here'', ''how'', ''other'',
         ''own'', ''same'', ''should'', ''such'', ''than'', ''them'', ''very'', ''were'',
         ''what'', ''when'', ''where'', ''which'', ''while'', ''with'', ''would'', ''your''] \<rparr>,
     \<lparr> name = ''Programming'', words =
        [''function'', ''variable'', ''array'', ''object'', ''string'', ''number'', ''boolean'',
         ''interface'', ''class'', ''method'', ''property'', ''return'', ''import'', ''export'',
         ''component'', ''service'', ''module'', ''package'', ''library'', ''framework'',
         ''algorithm'', ''database'', ''server'', ''client'', ''response'', ''request'',
         ''parameter'', ''argument'', ''callback'', ''promise'', ''async'', ''await''] \<rparr>,
     \<lparr> name = ''Advanced'', words =
        [''development'', ''implementation'', ''architecture'', ''optimization'', ''performance'',
         ''scalability'', ''maintainability'', ''responsibility'', ''configuration'',
         ''authentication'', ''authorization'', ''infrastructure'', ''documentation'',
         ''specification'', ''integration'', ''deployment'', ''environment'', ''orchestration'',
         ''containerization'', ''virtualization'', ''microservices'', ''monolithic'',
         ''distributed'', ''synchronization'', ''asynchronous''] \<rparr> ]"

definition difficultyLevels :: "DifficultyLevel list" where
  "difficultyLevels =
   [ \<lparr> level_name = ''Easy'', wordLength_min = 2, wordLength_max = 5, timePerWord = 4,
       description = ''Short words with plenty of time'' \<rparr>,
     \<lparr> level_name = ''Medium'', wordLength_min = 4, wordLength_max = 8, timePerWord = 5 / 2,
       description = ''Medium words with moderate time'' \<rparr>,
     \<lparr> level_name = ''Hard'', wordLength_min = 6, wordLength_max = 12, timePerWord = 3 / 2,
       description = ''Long words with limited time'' \<rparr>,
     \<lparr> level_name = ''Expert'', wordLength_min = 8, wordLength_max = 15, timePerWord = 1,
       description = ''Complex words with minimal time'' \<rparr> ]"

text \<open>\<^verbatim>\<open>xs[Math.floor(Math.random() * xs.length)]\<close>, the product rounded to a
  double; in range as \<open>0 \<le> rnd < 1\<close>.\<close>

definition pickRandom :: "rat \<Rightarrow> 'a list \<Rightarrow> 'a" where
  "pickRandom rnd xs = xs ! nat \<lfloor>roundToDouble (rnd * of_nat (length xs))\<rfloor>"

definition getRandomWord :: "rat \<Rightarrow> string \<Rightarrow> string \<Rightarrow> error + string" where
  "getRandomWord rnd cat diff =
     (case find (\<lambda>c. name c = cat) categories of
        None \<Rightarrow> Inl (CategoryNotFound cat)
      | Some categoryData \<Rightarrow>
          (case find (\<lambda>d. level_name d = diff) difficultyLevels of
             None \<Rightarrow> Inl (DifficultyNotFound diff)
           | Some difficultyData \<Rightarrow>
               (let filteredWords =
                      filter (\<lambda>w. length w \<ge> wordLength_min difficultyData \<and>
                                   length w \<le> wordLength_max difficultyData)
                        (words categoryData)
                in if length filteredWords = 0
                   then Inr (pickRandom rnd (words categoryData))
                   else Inr (pickRandom rnd filteredWords))))"

definition getTimePerWord :: "string \<Rightarrow> rat" where
  "getTimePerWord diff =
     (case find (\<lambda>d. level_name d = diff) difficultyLevels of
        Some difficultyData \<Rightarrow> timePerWord difficultyData
      | None \<Rightarrow> 5 / 2)"

section \<open>GameService (services/game.ts)\<close>

subsection \<open>Timers\<close>

definition unsubscribeGame :: "nat option \<Rightarrow> GameService \<Rightarrow> GameService" where
  "unsubscribeGame h s =
     (case h of None \<Rightarrow> s
      | Some k \<Rightarrow> s\<lparr> liveGameTimers := removeAll k (liveGameTimers s) \<rparr>)"

definition unsubscribeWord :: "nat option \<Rightarrow> GameService \<Rightarrow> GameService" where
  "unsubscribeWord h s =
     (case h of None \<Rightarrow> s
      | Some k \<Rightarrow> s\<lparr> liveWordTimers := filter (\<lambda>e. fst e \<noteq> k) (liveWordTimers s) \<rparr>)"

definition stopTimers :: "GameService \<Rightarrow> GameService" where
  "stopTimers s = unsubscribeWord (wordTimerSubscription s) (unsubscribeGame (timerSubscription s) s)"

definition startGameTimer :: "GameService \<Rightarrow> GameService" where
  "startGameTimer s =
     s\<lparr> timerSubscription := Some (nextSubscription s),
        liveGameTimers := nextSubscription s # liveGameTimers s,
        nextSubscription := Suc (nextSubscription s) \<rparr>"

definition startWordTimer :: "GameService \<Rightarrow> GameService" where
  "startWordTimer s =
     (let timePerWord = getTimePerWord (difficulty (currentSettings s))
      in s\<lparr> wordTimerSubscription := Some (nextSubscription s),
            liveWordTimers := (nextSubscription s, timePerWord) # liveWordTimers s,
            nextSubscription := Suc (nextSubscription s) \<rparr>)"

definition restartWordTimer :: "GameService \<Rightarrow> GameService" where
  "restartWordTimer s =
     (let s1 = unsubscribeWord (wordTimerSubscription s) s
      in if isPlaying (gameState s1) \<and> \<not> isGameOver (gameState s1) \<and> \<not> isPaused (gameState s1)
         then startWordTimer s1 else s1)"

subsection \<open>Phase operations\<close>

definition endGame :: "GameService \<Rightarrow> GameService" where
  "endGame s =
     (let s1 = stopTimers s
      in s1\<lparr> gameState := (gameState s1)
               \<lparr> isPlaying := False, isGameOver := True, isPaused := False \<rparr> \<rparr>)"

definition resetGame :: "GameService \<Rightarrow> GameService" where
  "resetGame s = (stopTimers s)\<lparr> gameState := getInitialState \<rparr>"

definition pauseGame :: "GameService \<Rightarrow> GameService" where
  "pauseGame s =
     (let s1 = s\<lparr> gameState := (gameState s)\<lparr> isPaused := \<not> isPaused (gameState s) \<rparr> \<rparr>
      in if isPaused (gameState s1) then stopTimers s1
         else startWordTimer (startGameTimer s1))"

subsection \<open>Custom text\<close>

text \<open>\<^verbatim>\<open>String.prototype.toLowerCase\<close> on a code unit below 256: the letters
  \<open>A\<close> to \<open>Z\<close> and the Latin-1 capitals \<open>0xC0\<close> to \<open>0xDE\<close> (the multiplication sign
  \<open>0xD7\<close> apart) move up by 32; every other code unit is its own lower case.\<close>

definition toLowerCase :: "char \<Rightarrow> char" where
  "toLowerCase c =
     (if (65 \<le> (of_char c :: nat) \<and> (of_char c :: nat) \<le> 90) \<or>
         (192 \<le> (of_char c :: nat) \<and> (of_char c :: nat) \<le> 222 \<and> (of_char c :: nat) \<noteq> 215)
      then char_of ((of_char c :: nat) + 32) else c)"

text \<open>The class \<^verbatim>\<open>\s\<close> on code units below 256: tab, line feed, vertical tab, form
  feed, carriage return, space and the no-break space \<open>0xA0\<close>.\<close>

definition isSpace :: "char \<Rightarrow> bool" where
  "isSpace c \<longleftrightarrow> (of_char c :: nat) \<in> {9, 10, 11, 12, 13, 32, 160}"

text \<open>The class \<^verbatim>\<open>[.,!?;:"'()\-]\<close>.\<close>

definition isPunctuation :: "char \<Rightarrow> bool" where
  "isPunctuation c \<longleftrightarrow> (of_char c :: nat) \<in> {46, 44, 33, 63, 59, 58, 34, 39, 40, 41, 45}"

text \<open>\<^verbatim>\<open>str.split(/\s+/)\<close>: every maximal run of white space separates two tokens, so
  white space at either end gives an empty token there, and the empty string gives one
  empty token. \<open>acc\<close> is the token being read, reversed.\<close>

function splitWhitespace :: "string \<Rightarrow> string \<Rightarrow> string list" where
  "splitWhitespace acc [] = [rev acc]"
| "splitWhitespace acc (c # cs) =
     (if isSpace c then rev acc # splitWhitespace [] (dropWhile isSpace cs)
      else splitWhitespace (c # acc) cs)"
  by pat_completeness auto
termination
  by (relation "measure (\<lambda>(acc, cs). length cs)")
     (auto simp: le_imp_less_Suc length_dropWhile_le)

definition tokenize :: "string \<Rightarrow> string list" where
  "tokenize text =
     filter (\<lambda>w. length w > 0)
       (map (\<lambda>w. filter (\<lambda>c. \<not> isPunctuation c) w)
          (splitWhitespace [] (map toLowerCase text)))"

text \<open>\<^verbatim>\<open>customTextService.recordUsage\<close> writes to another service only and is left
  out.\<close>

definition initializeCustomText :: "CustomText \<Rightarrow> GameService \<Rightarrow> GameService" where
  "initializeCustomText ct s =
     s\<lparr> customTextWords := tokenize (content ct), customTextIndex := 0 \<rparr>"

definition getNextCustomWord :: "GameService \<Rightarrow> string \<times> GameService" where
  "getNextCustomWord s =
     (if length (customTextWords s) = 0 then (''end'', s)
      else
        (let w = customTextWords s ! customTextIndex s;
             s1 = s\<lparr> customTextIndex := (customTextIndex s + 1) mod length (customTextWords s) \<rparr>;
             s2 = (if customTextIndex s1 = 0 \<and> totalWords (gameState s1) > 0
                   then s1\<lparr> scheduledEndGame := scheduledEndGame s1 @ [100] \<rparr> else s1)
         in (w, s2)))"

definition getNextWord :: "rat \<Rightarrow> GameService \<Rightarrow> (error + string) \<times> GameService" where
  "getNextWord rnd s =
     (if isCustomMode (currentSettings s)
      then (case getNextCustomWord s of (w, s1) \<Rightarrow> (Inr w, s1))
      else (getRandomWord rnd (category (currentSettings s)) (difficulty (currentSettings s)), s))"

subsection \<open>Committing a word\<close>

text \<open>\<^verbatim>\<open>Math.round\<close> rounds a half up.\<close>

definition Math_round :: "rat \<Rightarrow> int" where
  "Math_round x = \<lfloor>x + 1 / 2\<rfloor>"

definition baseScore :: "string \<Rightarrow> int" where
  "baseScore w = int (length w) * 10"

text \<open>\<^verbatim>\<open>Math.max(0, Math.round((3 - timeTaken) * 5))\<close>: the difference is rounded
  to a double, and so is the product.\<close>

definition timeBonus :: "rat \<Rightarrow> int" where
  "timeBonus t = max 0 (Math_round (roundToDouble (roundToDouble (3 - t) * 5)))"

definition streakBonus :: "int \<Rightarrow> int" where
  "streakBonus st = (st div 5) * 50"

definition newMultiplier :: "int \<Rightarrow> rat" where
  "newMultiplier newStreak = min 5 (1 + of_int (newStreak div 10) * (1 / 2))"

text \<open>
  \<open>now\<close> is the \<^verbatim>\<open>Date.now()\<close> stored into \<^verbatim>\<open>wordStartTime\<close>. The argument of
  \<^verbatim>\<open>gameState.update\<close> calls \<^verbatim>\<open>getNextWord\<close> while the signal still holds the old
  state; if that throws, the signal is not written.
\<close>

definition handleCorrectWord ::
  "int \<Rightarrow> rat \<Rightarrow> rat \<Rightarrow> GameService \<Rightarrow> (error + TypingResult) \<times> GameService" where
  "handleCorrectWord now rnd t s =
     (let currentState = gameState s;
          totalScore =
            of_int (baseScore (currentWord currentState) + timeBonus t
                    + streakBonus (streak currentState)) * multiplier currentState;
          newStreak = streak currentState + 1
      in case getNextWord rnd s of
           (Inl e, s1) \<Rightarrow> (Inl e, s1)
         | (Inr w, s1) \<Rightarrow>
             (let st = gameState s1;
                  s2 = s1\<lparr> gameState := st
                          \<lparr> score := score st + Math_round totalScore,
                            correctWords := correctWords st + 1,
                            totalWords := totalWords st + 1,
                            streak := newStreak,
                            multiplier := newMultiplier newStreak,
                            userInput := [],
                            wordsTyped := wordsTyped st @ [currentWord st],
                            currentWord := w \<rparr>,
                          wordStartTime := now \<rparr>
              in (Inr \<lparr> isCorrect = True, timeTaken = t, word = currentWord currentState \<rparr>,
                  restartWordTimer s2)))"

definition handleIncorrectWord ::
  "int \<Rightarrow> rat \<Rightarrow> rat \<Rightarrow> GameService \<Rightarrow> (error + TypingResult) \<times> GameService" where
  "handleIncorrectWord now rnd t s =
     (let currentState = gameState s
      in case getNextWord rnd s of
           (Inl e, s1) \<Rightarrow> (Inl e, s1)
         | (Inr w, s1) \<Rightarrow>
             (let st = gameState s1;
                  s2 = s1\<lparr> gameState := st
                          \<lparr> totalWords := totalWords st + 1,
                            mistakes := mistakes st + 1,
                            streak := 0,
                            multiplier := 1,
                            userInput := [],
                            wordsTyped := wordsTyped st @ [currentWord st],
                            currentWord := w \<rparr>,
                          wordStartTime := now \<rparr>
              in (Inr \<lparr> isCorrect = False, timeTaken = t, word = currentWord currentState \<rparr>,
                  restartWordTimer s2)))"

text \<open>\<^verbatim>\<open>(Date.now() - this.wordStartTime) / 1000\<close>, the difference and the quotient
  each rounded to a double.\<close>

definition wordElapsed :: "int \<Rightarrow> GameService \<Rightarrow> rat" where
  "wordElapsed now s = roundToDouble (roundToDouble (of_int (now - wordStartTime s)) / 1000)"

definition processInput ::
  "int \<Rightarrow> rat \<Rightarrow> string \<Rightarrow> GameService \<Rightarrow> (error + TypingResult) \<times> GameService" where
  "processInput now rnd input s =
     (let currentState = gameState s;
          t = wordElapsed now s;
          s1 = s\<lparr> gameState := (gameState s)\<lparr> userInput := input \<rparr> \<rparr>
      in if input = currentWord currentState then handleCorrectWord now rnd t s1
         else if length input \<ge> length (currentWord currentState)
              then handleIncorrectWord now rnd t s1
         else (Inr \<lparr> isCorrect = False, timeTaken = t, word = currentWord currentState \<rparr>, s1))"

definition skipWord :: "int \<Rightarrow> rat \<Rightarrow> GameService \<Rightarrow> (error + unit) \<times> GameService" where
  "skipWord now rnd s =
     (case handleIncorrectWord now rnd (wordElapsed now s) s of
        (Inl e, s1) \<Rightarrow> (Inl e, s1)
      | (Inr r, s1) \<Rightarrow> (Inr (), s1))"

subsection \<open>Starting a game\<close>

definition mergeSettings :: "GameSettings \<Rightarrow> PartialGameSettings \<Rightarrow> GameSettings" where
  "mergeSettings current p =
     \<lparr> difficulty = (case p_difficulty p of None \<Rightarrow> difficulty current | Some v \<Rightarrow> v),
       category = (case p_category p of None \<Rightarrow> category current | Some v \<Rightarrow> v),
       gameDuration = (case p_gameDuration p of None \<Rightarrow> gameDuration current | Some v \<Rightarrow> v),
       wordsPerGame = (case p_wordsPerGame p of None \<Rightarrow> wordsPerGame current | Some v \<Rightarrow> v),
       customText = (case p_customText p of None \<Rightarrow> customText current | Some v \<Rightarrow> v),
       isCustomMode = (case p_isCustomMode p of None \<Rightarrow> isCustomMode current | Some v \<Rightarrow> v) \<rparr>"

definition beginSession :: "int \<Rightarrow> string \<Rightarrow> GameService \<Rightarrow> GameService" where
  "beginSession now newWord s =
     startWordTimer (startGameTimer
       (s\<lparr> gameState := getInitialState
              \<lparr> isPlaying := True, currentWord := newWord,
                timeRemaining := gameDuration (currentSettings s) \<rparr>,
           gameStartTime := now, wordStartTime := now \<rparr>))"

text \<open>
  The first word comes from the custom text when \<^verbatim>\<open>isCustomMode && customText\<close>
  holds, and from \<^verbatim>\<open>getRandomWord\<close> otherwise; a throw of \<^verbatim>\<open>getRandomWord\<close>
  leaves the merged settings in place and the game state as it was.
\<close>

definition startGame ::
  "int \<Rightarrow> rat \<Rightarrow> PartialGameSettings option \<Rightarrow> GameService \<Rightarrow> (error + unit) \<times> GameService" where
  "startGame now rnd settings s =
     (let s1 = (case settings of None \<Rightarrow> s
                | Some p \<Rightarrow> s\<lparr> currentSettings := mergeSettings (currentSettings s) p \<rparr>)
      in case (if isCustomMode (currentSettings s1) then customText (currentSettings s1) else None) of
           Some ct \<Rightarrow>
             (case getNextCustomWord (initializeCustomText ct s1) of
                (newWord, s2) \<Rightarrow> (Inr (), beginSession now newWord s2))
         | None \<Rightarrow>
             (case getRandomWord rnd (category (currentSettings s1)) (difficulty (currentSettings s1)) of
                Inl e \<Rightarrow> (Inl e, s1)
              | Inr newWord \<Rightarrow> (Inr (), beginSession now newWord s1)))"

subsection \<open>Timer callbacks\<close>

text \<open>
  One emission of the \<^verbatim>\<open>interval(1000)\<close> subscription \<open>k\<close>. A subscription that is
  not live emits nothing. \<^verbatim>\<open>takeWhile\<close> completes the subscription when its predicate
  is false, and \<^verbatim>\<open>tap\<close> is then not run.
\<close>

definition gameTimerFire :: "nat \<Rightarrow> GameService \<Rightarrow> GameService" where
  "gameTimerFire k s =
     (if k \<notin> set (liveGameTimers s) then s
      else if timeRemaining (gameState s) > 0 \<and> isPlaying (gameState s) \<and> \<not> isPaused (gameState s)
      then
        (let s1 = s\<lparr> gameState := (gameState s)
                    \<lparr> timeRemaining := max 0 (timeRemaining (gameState s) - 1) \<rparr> \<rparr>
         in if timeRemaining (gameState s1) \<le> 0 then endGame s1 else s1)
      else s\<lparr> liveGameTimers := removeAll k (liveGameTimers s) \<rparr>)"

text \<open>
  One emission of the \<^verbatim>\<open>interval(100)\<close> subscription \<open>k\<close>. \<open>now1\<close> is the
  \<^verbatim>\<open>Date.now()\<close> read by \<^verbatim>\<open>takeWhile\<close> and \<open>now2\<close> the one read by \<^verbatim>\<open>tap\<close>
  right after it (and by \<^verbatim>\<open>skipWord\<close>). An exception in \<^verbatim>\<open>tap\<close> ends the
  subscription.
\<close>

definition wordTimerFire :: "nat \<Rightarrow> int \<Rightarrow> int \<Rightarrow> rat \<Rightarrow> GameService \<Rightarrow> GameService" where
  "wordTimerFire k now1 now2 rnd s =
     (case map_of (liveWordTimers s) k of
        None \<Rightarrow> s
      | Some limit \<Rightarrow>
          (if wordElapsed now1 s < limit \<and> isPlaying (gameState s) \<and> \<not> isPaused (gameState s)
               \<and> \<not> isGameOver (gameState s)
           then
             (if wordElapsed now2 s \<ge> getTimePerWord (difficulty (currentSettings s))
              then (case skipWord now2 rnd s of
                      (Inl e, s1) \<Rightarrow> unsubscribeWord (Some k) s1
                    | (Inr u, s1) \<Rightarrow> s1)
              else s)
           else unsubscribeWord (Some k) s))"

text \<open>The callback of \<^verbatim>\<open>setTimeout(() => this.endGame(), 100)\<close>.\<close>

definition endGameTimeoutFire :: "GameService \<Rightarrow> GameService" where
  "endGameTimeoutFire s =
     (case scheduledEndGame s of
        [] \<Rightarrow> s
      | d # ds \<Rightarrow> endGame (s\<lparr> scheduledEndGame := ds \<rparr>))"

text \<open>A run of timer emissions, in the order they are delivered.\<close>

datatype tick = GameTick nat | WordTick nat int int rat

fun tickStep :: "tick \<Rightarrow> GameService \<Rightarrow> GameService" where
  "tickStep (GameTick k) s = gameTimerFire k s"
| "tickStep (WordTick k now1 now2 rnd) s = wordTimerFire k now1 now2 rnd s"

definition runTicks :: "tick list \<Rightarrow> GameService \<Rightarrow> GameService" where
  "runTicks ts s = fold tickStep ts s"

section \<open>Error classifier (services/error-feedback.ts)\<close>

record KeyInfo =
  row :: int
  col :: int
  finger :: string

text \<open>The table \<^verbatim>\<open>keyboardLayout\<close>; the classifier is handed single characters.\<close>

definition keyboardLayout :: "char \<Rightarrow> KeyInfo option" where
  "keyboardLayout = map_of
   [ (CHR ''q'', \<lparr> row = 1, col = 0, finger = ''left-pinky'' \<rparr>),
     (CHR ''w'', \<lparr> row = 1, col = 1, finger = ''left-ring'' \<rparr>),
     (CHR ''e'', \<lparr> row = 1, col = 2, finger = ''left-middle'' \<rparr>),
     (CHR ''r'', \<lparr> row = 1, col = 3, finger = ''left-index'' \<rparr>),
     (CHR ''t'', \<lparr> row = 1, col = 4, finger = ''left-index'' \<rparr>),
     (CHR ''y'', \<lparr> row = 1, col = 5, finger = ''right-index'' \<rparr>),
     (CHR ''u'', \<lparr> row = 1, col = 6, finger = ''right-index'' \<rparr>),
     (CHR ''i'', \<lparr> row = 1, col = 7, finger = ''right-middle'' \<rparr>),
     (CHR ''o'', \<lparr> row = 1, col = 8, finger = ''right-ring'' \<rparr>),
     (CHR ''p'', \<lparr> row = 1, col = 9, finger = ''right-pinky'' \<rparr>),
     (CHR ''a'', \<lparr> row = 2, col = 0, finger = ''left-pinky'' \<rparr>),
     (CHR ''s'', \<lparr> row = 2, col = 1, finger = ''left-ring'' \<rparr>),
     (CHR ''d'', \<lparr> row = 2, col = 2, finger = ''left-middle'' \<rparr>),
     (CHR ''f'', \<lparr> row = 2, col = 3, finger = ''left-index'' \<rparr>),
     (CHR ''g'', \<lparr> row = 2, col = 4, finger = ''left-index'' \<rparr>),
     (CHR ''h'', \<lparr> row = 2, col = 5, finger = ''right-index'' \<rparr>),
     (CHR ''j'', \<lparr> row = 2, col = 6, finger = ''right-index'' \<rparr>),
     (CHR ''k'', \<lparr> row = 2, col = 7, finger = ''right-middle'' \<rparr>),
     (CHR ''l'', \<lparr> row = 2, col = 8, finger = ''right-ring'' \<rparr>),
     (CHR ''z'', \<lparr> row = 3, col = 0, finger = ''left-pinky'' \<rparr>),
     (CHR ''x'', \<lparr> row = 3, col = 1, finger = ''left-ring'' \<rparr>),
     (CHR ''c'', \<lparr> row = 3, col = 2, finger = ''left-middle'' \<rparr>),
     (CHR ''v'', \<lparr> row = 3, col = 3, finger = ''left-index'' \<rparr>),
     (CHR ''b'', \<lparr> row = 3, col = 4, finger = ''left-index'' \<rparr>),
     (CHR ''n'', \<lparr> row = 3, col = 5, finger = ''right-index'' \<rparr>),
     (CHR ''m'', \<lparr> row = 3, col = 6, finger = ''right-index'' \<rparr>),
     (CHR '' '', \<lparr> row = 4, col = 4, finger = ''thumbs'' \<rparr>) ]"

datatype PatternType =
  finger_slip | finger_confusion | timing | visual | muscle_memory | keyboard_layout

datatype Severity = low | medium | high

text \<open>\<^verbatim>\<open>ErrorPattern\<close> without its two display fields (an emoji and a colour).\<close>

record ErrorPattern =
  pattern_type :: PatternType
  severity :: Severity
  pattern_description :: string
  suggestion :: string

definition errorPatterns :: "ErrorPattern list" where
  "errorPatterns =
   [ \<lparr> pattern_type = finger_slip, severity = low,
       pattern_description = ''Adjacent key mistake'',
       suggestion = ''Slow down and focus on finger placement'' \<rparr>,
     \<lparr> pattern_type = finger_confusion, severity = medium,
       pattern_description = ''Wrong finger used'',
       suggestion = ''Practice proper finger positioning'' \<rparr>,
     \<lparr> pattern_type = timing, severity = medium,
       pattern_description = ''Rushed keystroke'',
       suggestion = ''Maintain steady rhythm'' \<rparr>,
     \<lparr> pattern_type = visual, severity = high,
       pattern_description = ''Visual recognition error'',
       suggestion = ''Focus on letter recognition'' \<rparr>,
     \<lparr> pattern_type = muscle_memory, severity = high,
       pattern_description = ''Muscle memory mismatch'',
       suggestion = ''Practice key combinations'' \<rparr>,
     \<lparr> pattern_type = keyboard_layout, severity = low,
       pattern_description = ''Layout confusion'',
       suggestion = ''Practice with consistent keyboard'' \<rparr> ]"

text \<open>\<^verbatim>\<open>this.errorPatterns.find(p => p.type === ty)\<close>; \<open>None\<close> is \<^verbatim>\<open>undefined\<close>.\<close>

definition patternOf :: "PatternType \<Rightarrow> ErrorPattern option" where
  "patternOf ty = find (\<lambda>p. pattern_type p = ty) errorPatterns"

definition classifyError :: "char \<Rightarrow> char \<Rightarrow> rat \<Rightarrow> ErrorPattern option" where
  "classifyError expected actual t =
     (case (keyboardLayout (toLowerCase expected), keyboardLayout (toLowerCase actual)) of
        (Some expectedKey, Some actualKey) \<Rightarrow>
          (let distance = \<bar>row expectedKey - row actualKey\<bar> + \<bar>col expectedKey - col actualKey\<bar>
           in if distance = 1 then patternOf finger_slip
              else if finger expectedKey \<noteq> finger actualKey \<and> distance \<le> 2
                   then patternOf finger_confusion
              else if t < 1 / 10 then patternOf timing
              else if distance > 3 then patternOf visual
              else patternOf muscle_memory)
      | _ \<Rightarrow> patternOf visual)"

text \<open>
  The classifier as the specification words it, for comparison: the two characters are
  looked up in the table as they are given.
\<close>

definition classify_spec :: "char \<Rightarrow> char \<Rightarrow> rat \<Rightarrow> PatternType" where
  "classify_spec expectedChar actualChar timeTakenSeconds =
     (case keyboardLayout expectedChar of
        None \<Rightarrow> visual
      | Some e \<Rightarrow>
          (case keyboardLayout actualChar of
             None \<Rightarrow> visual
           | Some a \<Rightarrow>
               (let d = \<bar>row e - row a\<bar> + \<bar>col e - col a\<bar>
                in if d = 1 then finger_slip
                   else if finger e \<noteq> finger a \<and> d \<le> 2 then finger_confusion
                   else if timeTakenSeconds < 1 / 10 then timing
                   else if d > 3 then visual
                   else muscle_memory)))"

section \<open>Vocabulary of the properties\<close>

text \<open>
  The word source cannot throw: the session is in custom-text mode, or the category and
  the difficulty of the settings are in the tables of \<^verbatim>\<open>WordService\<close>. A session that
  \<open>startGame\<close> has started satisfies it.
\<close>

definition wordSourceOk :: "GameService \<Rightarrow> bool" where
  "wordSourceOk s \<longleftrightarrow>
     isCustomMode (currentSettings s) \<or>
     (category (currentSettings s) \<in> set (map name categories) \<and>
      difficulty (currentSettings s) \<in> set (map level_name difficultyLevels))"

text \<open>What the specification says of an incorrect-word commit that fetches \<open>w\<close>.\<close>

definition incorrectCommit :: "GameState \<Rightarrow> string \<Rightarrow> GameState \<Rightarrow> bool" where
  "incorrectCommit g w g' \<longleftrightarrow>
     totalWords g' = totalWords g + 1 \<and> mistakes g' = mistakes g + 1 \<and>
     streak g' = 0 \<and> multiplier g' = 1 \<and> score g' = score g \<and>
     correctWords g' = correctWords g \<and> userInput g' = [] \<and> currentWord g' = w"

text \<open>The user types the current word correctly, once for each clock reading and random
  draw of the list.\<close>

fun typeCorrectly :: "(int \<times> rat) list \<Rightarrow> GameService \<Rightarrow> GameService" where
  "typeCorrectly [] s = s"
| "typeCorrectly ((now, rnd) # es) s =
     typeCorrectly es (snd (processInput now rnd (currentWord (gameState s)) s))"

text \<open>The same service with the three phase flags replaced.\<close>

definition withFlags :: "bool \<Rightarrow> bool \<Rightarrow> bool \<Rightarrow> GameState \<Rightarrow> GameState" where
  "withFlags p v z g = g\<lparr> isPlaying := p, isGameOver := v, isPaused := z \<rparr>"

text \<open>A session for the examples: category Basic, difficulty Easy, started at time 0
  with the random draw 0, so that the first word is \<open>''the''\<close>.\<close>

definition easyBasic :: PartialGameSettings where
  "easyBasic =
     \<lparr> p_difficulty = Some ''Easy'', p_category = Some ''Basic'', p_gameDuration = None,
       p_wordsPerGame = None, p_customText = None, p_isCustomMode = None \<rparr>"

definition easySession :: GameService where
  "easySession = snd (startGame 0 0 (Some easyBasic) newGameService)"

text \<open>
  Splitting on white space as the specification words it: the words of a text are its
  maximal runs of characters that are not white space.
\<close>

function words_of :: "string \<Rightarrow> string list" where
  "words_of cs =
     (case dropWhile isSpace cs of
        [] \<Rightarrow> []
      | x # xs \<Rightarrow>
          takeWhile (\<lambda>c. \<not> isSpace c) (x # xs) # words_of (dropWhile (\<lambda>c. \<not> isSpace c) xs))"
  by pat_completeness auto
termination
proof (relation "measure length")
  show "wf (measure length)" by simp
next
  fix cs :: string and x xs
  assume a: "dropWhile isSpace cs = x # xs"
  have "length (dropWhile (\<lambda>c. \<not> isSpace c) xs) \<le> length xs"
    by (rule length_dropWhile_le)
  also have "length xs < length (dropWhile isSpace cs)" by (simp add: a)
  also have "\<dots> \<le> length cs" by (rule length_dropWhile_le)
  finally show "(dropWhile (\<lambda>c. \<not> isSpace c) xs, cs) \<in> measure length" by simp
qed

text \<open>The words that \<open>n\<close> calls of \<open>getNextCustomWord\<close> in a row serve.\<close>

fun serveCustom :: "nat \<Rightarrow> GameService \<Rightarrow> string list \<times> GameService" where
  "serveCustom 0 s = ([], s)"
| "serveCustom (Suc n) s =
     (case getNextCustomWord s of
        (w, s1) \<Rightarrow> (case serveCustom n s1 of (ws, s2) \<Rightarrow> (w # ws, s2)))"

text \<open>A custom-text session for the examples: the text has three words, the first has
  been typed, and the second is the current word.\<close>

definition sampleText :: CustomText where
  "sampleText = \<lparr> text_id = ''sample'', content = ''Hello, World!  foo-bar'' \<rparr>"

definition customSettings :: PartialGameSettings where
  "customSettings =
     \<lparr> p_difficulty = None, p_category = None, p_gameDuration = None,
       p_wordsPerGame = None, p_customText = Some (Some sampleText),
       p_isCustomMode = Some True \<rparr>"

definition customSession :: GameService where
  "customSession =
     snd (processInput 1000 0 ''hello'' (snd (startGame 0 0 (Some customSettings) newGameService)))"

text \<open>A custom-text session whose text has two words, just started.\<close>

definition twoWordSettings :: PartialGameSettings where
  "twoWordSettings =
     \<lparr> p_difficulty = None, p_category = None, p_gameDuration = None,
       p_wordsPerGame = None,
       p_customText = Some (Some \<lparr> text_id = ''two'', content = ''hello world'' \<rparr>),
       p_isCustomMode = Some True \<rparr>"

definition twoWordSession :: GameService where
  "twoWordSession = snd (startGame 0 0 (Some twoWordSettings) newGameService)"

text \<open>The session \<open>easySession\<close> after ten words typed correctly at time 0: the streak
  is 10 and the multiplier 1.5.\<close>

definition streakSession :: GameService where
  "streakSession = typeCorrectly (replicate 10 (0, 0)) easySession"

section \<open>Auxiliary facts\<close>

lemma find_name_Some:
  "x \<in> set (map f xs) \<Longrightarrow> \<exists>y. find (\<lambda>c. f c = x) xs = Some y"
  by (induction xs) auto

lemma getRandomWord_ok:
  assumes "cat \<in> set (map name categories)" "diff \<in> set (map level_name difficultyLevels)"
  shows "\<exists>w. getRandomWord rnd cat diff = Inr w"
proof -
  obtain c where c: "find (\<lambda>c. name c = cat) categories = Some c"
    using find_name_Some[OF assms(1)] by blast
  obtain d where d: "find (\<lambda>d. level_name d = diff) difficultyLevels = Some d"
    using find_name_Some[OF assms(2)] by blast
  show ?thesis unfolding getRandomWord_def c d by (simp add: Let_def)
qed

lemma getNextWord_ok: "wordSourceOk s \<Longrightarrow> \<exists>w. fst (getNextWord rnd s) = Inr w"
  unfolding wordSourceOk_def getNextWord_def
  using getRandomWord_ok[of "category (currentSettings s)" "difficulty (currentSettings s)" rnd]
  by (auto split: prod.splits)

lemma getNextCustomWord_frame:
  "gameState (snd (getNextCustomWord s)) = gameState s"
  "currentSettings (snd (getNextCustomWord s)) = currentSettings s"
  "wordStartTime (snd (getNextCustomWord s)) = wordStartTime s"
  "timerSubscription (snd (getNextCustomWord s)) = timerSubscription s"
  "wordTimerSubscription (snd (getNextCustomWord s)) = wordTimerSubscription s"
  "liveGameTimers (snd (getNextCustomWord s)) = liveGameTimers s"
  "liveWordTimers (snd (getNextCustomWord s)) = liveWordTimers s"
  "customTextWords (snd (getNextCustomWord s)) = customTextWords s"
  by (simp_all add: getNextCustomWord_def Let_def)

lemma getNextWord_frame:
  "gameState (snd (getNextWord rnd s)) = gameState s"
  "currentSettings (snd (getNextWord rnd s)) = currentSettings s"
  "wordStartTime (snd (getNextWord rnd s)) = wordStartTime s"
  "timerSubscription (snd (getNextWord rnd s)) = timerSubscription s"
  "wordTimerSubscription (snd (getNextWord rnd s)) = wordTimerSubscription s"
  "liveGameTimers (snd (getNextWord rnd s)) = liveGameTimers s"
  "liveWordTimers (snd (getNextWord rnd s)) = liveWordTimers s"
  "customTextWords (snd (getNextWord rnd s)) = customTextWords s"
  using getNextCustomWord_frame[of s]
  by (auto simp: getNextWord_def split: prod.splits)

lemma getNextWord_userInput:
  "fst (getNextWord rnd (s\<lparr> gameState := (gameState s)\<lparr> userInput := x \<rparr> \<rparr>))
     = fst (getNextWord rnd s)"
  by (simp add: getNextWord_def getNextCustomWord_def Let_def split: prod.splits)

lemma restartWordTimer_frame:
  "gameState (restartWordTimer s) = gameState s"
  "currentSettings (restartWordTimer s) = currentSettings s"
  "wordStartTime (restartWordTimer s) = wordStartTime s"
  "customTextWords (restartWordTimer s) = customTextWords s"
  "customTextIndex (restartWordTimer s) = customTextIndex s"
  "scheduledEndGame (restartWordTimer s) = scheduledEndGame s"
  "liveGameTimers (restartWordTimer s) = liveGameTimers s"
  "timerSubscription (restartWordTimer s) = timerSubscription s"
  by (simp_all add: restartWordTimer_def unsubscribeWord_def startWordTimer_def Let_def
        split: option.splits)

lemma handleCorrectWord_ok:
  assumes "fst (getNextWord rnd s) = Inr w"
  shows "fst (handleCorrectWord now rnd t s) =
           Inr \<lparr> isCorrect = True, timeTaken = t, word = currentWord (gameState s) \<rparr>"
    and "gameState (snd (handleCorrectWord now rnd t s)) =
           (gameState s)
             \<lparr> score := score (gameState s) +
                  Math_round (of_int (baseScore (currentWord (gameState s)) + timeBonus t
                                      + streakBonus (streak (gameState s)))
                              * multiplier (gameState s)),
               correctWords := correctWords (gameState s) + 1,
               totalWords := totalWords (gameState s) + 1,
               streak := streak (gameState s) + 1,
               multiplier := newMultiplier (streak (gameState s) + 1),
               userInput := [],
               wordsTyped := wordsTyped (gameState s) @ [currentWord (gameState s)],
               currentWord := w \<rparr>"
    and "wordStartTime (snd (handleCorrectWord now rnd t s)) = now"
    and "currentSettings (snd (handleCorrectWord now rnd t s)) = currentSettings s"
proof -
  obtain r s1 where g: "getNextWord rnd s = (r, s1)" by (cases "getNextWord rnd s")
  with assms have r: "r = Inr w" by simp
  have gs: "gameState s1 = gameState s" "currentSettings s1 = currentSettings s"
    using getNextWord_frame(1,2)[of rnd s] g by simp_all
  show "fst (handleCorrectWord now rnd t s) =
           Inr \<lparr> isCorrect = True, timeTaken = t, word = currentWord (gameState s) \<rparr>"
    by (simp add: handleCorrectWord_def g r Let_def)
  show "gameState (snd (handleCorrectWord now rnd t s)) =
           (gameState s)
             \<lparr> score := score (gameState s) +
                  Math_round (of_int (baseScore (currentWord (gameState s)) + timeBonus t
                                      + streakBonus (streak (gameState s)))
                              * multiplier (gameState s)),
               correctWords := correctWords (gameState s) + 1,
               totalWords := totalWords (gameState s) + 1,
               streak := streak (gameState s) + 1,
               multiplier := newMultiplier (streak (gameState s) + 1),
               userInput := [],
               wordsTyped := wordsTyped (gameState s) @ [currentWord (gameState s)],
               currentWord := w \<rparr>"
    by (simp add: handleCorrectWord_def g r Let_def restartWordTimer_frame gs)
  show "wordStartTime (snd (handleCorrectWord now rnd t s)) = now"
    by (simp add: handleCorrectWord_def g r Let_def restartWordTimer_frame)
  show "currentSettings (snd (handleCorrectWord now rnd t s)) = currentSettings s"
    by (simp add: handleCorrectWord_def g r Let_def restartWordTimer_frame gs)
qed

lemma handleIncorrectWord_ok:
  assumes "fst (getNextWord rnd s) = Inr w"
  shows "fst (handleIncorrectWord now rnd t s) =
           Inr \<lparr> isCorrect = False, timeTaken = t, word = currentWord (gameState s) \<rparr>"
    and "gameState (snd (handleIncorrectWord now rnd t s)) =
           (gameState s)
             \<lparr> totalWords := totalWords (gameState s) + 1,
               mistakes := mistakes (gameState s) + 1,
               streak := 0,
               multiplier := 1,
               userInput := [],
               wordsTyped := wordsTyped (gameState s) @ [currentWord (gameState s)],
               currentWord := w \<rparr>"
    and "wordStartTime (snd (handleIncorrectWord now rnd t s)) = now"
    and "currentSettings (snd (handleIncorrectWord now rnd t s)) = currentSettings s"
proof -
  obtain r s1 where g: "getNextWord rnd s = (r, s1)" by (cases "getNextWord rnd s")
  with assms have r: "r = Inr w" by simp
  have gs: "gameState s1 = gameState s" "currentSettings s1 = currentSettings s"
    using getNextWord_frame(1,2)[of rnd s] g by simp_all
  show "fst (handleIncorrectWord now rnd t s) =
           Inr \<lparr> isCorrect = False, timeTaken = t, word = currentWord (gameState s) \<rparr>"
    by (simp add: handleIncorrectWord_def g r Let_def)
  show "gameState (snd (handleIncorrectWord now rnd t s)) =
           (gameState s)
             \<lparr> totalWords := totalWords (gameState s) + 1,
               mistakes := mistakes (gameState s) + 1,
               streak := 0,
               multiplier := 1,
               userInput := [],
               wordsTyped := wordsTyped (gameState s) @ [currentWord (gameState s)],
               currentWord := w \<rparr>"
    by (simp add: handleIncorrectWord_def g r Let_def restartWordTimer_frame gs)
  show "wordStartTime (snd (handleIncorrectWord now rnd t s)) = now"
    by (simp add: handleIncorrectWord_def g r Let_def restartWordTimer_frame)
  show "currentSettings (snd (handleIncorrectWord now rnd t s)) = currentSettings s"
    by (simp add: handleIncorrectWord_def g r Let_def restartWordTimer_frame gs)
qed

lemma newMultiplier_lower: "0 \<le> n \<Longrightarrow> 1 \<le> newMultiplier n"
proof -
  assume "0 \<le> n"
  then have "0 \<le> n div 10" by simp
  then have "(0::rat) \<le> of_int (n div 10) * (1 / 2)" by simp
  then show ?thesis by (simp add: newMultiplier_def)
qed

lemma newMultiplier_upper: "newMultiplier n \<le> 5"
  by (simp add: newMultiplier_def)

lemma newMultiplier_mono: "n \<le> m \<Longrightarrow> newMultiplier n \<le> newMultiplier m"
proof -
  assume "n \<le> m"
  then have "n div 10 \<le> m div 10" by (simp add: zdiv_mono1)
  then have "(of_int (n div 10) :: rat) \<le> of_int (m div 10)" by simp
  then show ?thesis unfolding newMultiplier_def by (simp add: min_le_iff_disj)
qed

lemma processInput_currentWord:
  assumes "fst (getNextWord rnd s) = Inr w"
  shows "fst (processInput now rnd (currentWord (gameState s)) s) =
           Inr \<lparr> isCorrect = True, timeTaken = wordElapsed now s, word = currentWord (gameState s) \<rparr>"
    and "gameState (snd (processInput now rnd (currentWord (gameState s)) s)) =
           (gameState s)
             \<lparr> score := score (gameState s) +
                  Math_round (of_int (baseScore (currentWord (gameState s))
                                      + timeBonus (wordElapsed now s)
                                      + streakBonus (streak (gameState s)))
                              * multiplier (gameState s)),
               correctWords := correctWords (gameState s) + 1,
               totalWords := totalWords (gameState s) + 1,
               streak := streak (gameState s) + 1,
               multiplier := newMultiplier (streak (gameState s) + 1),
               userInput := [],
               wordsTyped := wordsTyped (gameState s) @ [currentWord (gameState s)],
               currentWord := w \<rparr>"
    and "currentSettings (snd (processInput now rnd (currentWord (gameState s)) s)) = currentSettings s"
proof -
  let ?s1 = "s\<lparr> gameState := (gameState s)\<lparr> userInput := currentWord (gameState s) \<rparr> \<rparr>"
  have n: "fst (getNextWord rnd ?s1) = Inr w"
    using assms by (simp only: getNextWord_userInput)
  have p: "processInput now rnd (currentWord (gameState s)) s
             = handleCorrectWord now rnd (wordElapsed now s) ?s1"
    by (simp add: processInput_def Let_def)
  show "fst (processInput now rnd (currentWord (gameState s)) s) =
           Inr \<lparr> isCorrect = True, timeTaken = wordElapsed now s, word = currentWord (gameState s) \<rparr>"
    unfolding p using handleCorrectWord_ok(1)[OF n] by simp
  show "gameState (snd (processInput now rnd (currentWord (gameState s)) s)) =
           (gameState s)
             \<lparr> score := score (gameState s) +
                  Math_round (of_int (baseScore (currentWord (gameState s))
                                      + timeBonus (wordElapsed now s)
                                      + streakBonus (streak (gameState s)))
                              * multiplier (gameState s)),
               correctWords := correctWords (gameState s) + 1,
               totalWords := totalWords (gameState s) + 1,
               streak := streak (gameState s) + 1,
               multiplier := newMultiplier (streak (gameState s) + 1),
               userInput := [],
               wordsTyped := wordsTyped (gameState s) @ [currentWord (gameState s)],
               currentWord := w \<rparr>"
    unfolding p using handleCorrectWord_ok(2)[OF n] by simp
  show "currentSettings (snd (processInput now rnd (currentWord (gameState s)) s)) = currentSettings s"
    unfolding p using handleCorrectWord_ok(4)[OF n] by simp
qed

lemma typeCorrectly_streak:
  "wordSourceOk s \<Longrightarrow> es \<noteq> [] \<Longrightarrow>
     streak (gameState (typeCorrectly es s)) = streak (gameState s) + int (length es) \<and>
     multiplier (gameState (typeCorrectly es s)) = newMultiplier (streak (gameState s) + int (length es))"
proof (induction es arbitrary: s)
  case Nil
  then show ?case by simp
next
  case (Cons e es)
  obtain now rnd where e: "e = (now, rnd)" by (cases e)
  let ?s' = "snd (processInput now rnd (currentWord (gameState s)) s)"
  obtain w where w: "fst (getNextWord rnd s) = Inr w"
    using getNextWord_ok[OF Cons.prems(1)] by blast
  have ok: "wordSourceOk ?s'"
    using Cons.prems(1) processInput_currentWord(3)[OF w] by (simp add: wordSourceOk_def)
  have st: "streak (gameState ?s') = streak (gameState s) + 1"
           "multiplier (gameState ?s') = newMultiplier (streak (gameState s) + 1)"
    using processInput_currentWord(2)[OF w, of now] by simp_all
  show ?case
  proof (cases "es = []")
    case True
    then show ?thesis using st by (simp add: e)
  next
    case False
    from Cons.IH[OF ok False] st show ?thesis by (simp add: e add.assoc)
  qed
qed

lemma processInput_incorrect:
  assumes "fst (getNextWord rnd s) = Inr w"
    and "input \<noteq> currentWord (gameState s)"
    and "length (currentWord (gameState s)) \<le> length input"
  shows "fst (processInput now rnd input s) =
           Inr \<lparr> isCorrect = False, timeTaken = wordElapsed now s, word = currentWord (gameState s) \<rparr>"
    and "gameState (snd (processInput now rnd input s)) =
           (gameState s)
             \<lparr> totalWords := totalWords (gameState s) + 1,
               mistakes := mistakes (gameState s) + 1,
               streak := 0,
               multiplier := 1,
               userInput := [],
               wordsTyped := wordsTyped (gameState s) @ [currentWord (gameState s)],
               currentWord := w \<rparr>"
    and "currentSettings (snd (processInput now rnd input s)) = currentSettings s"
proof -
  let ?s1 = "s\<lparr> gameState := (gameState s)\<lparr> userInput := input \<rparr> \<rparr>"
  have n: "fst (getNextWord rnd ?s1) = Inr w"
    using assms(1) by (simp only: getNextWord_userInput)
  have p: "processInput now rnd input s = handleIncorrectWord now rnd (wordElapsed now s) ?s1"
    using assms(2,3) by (simp add: processInput_def Let_def)
  show "fst (processInput now rnd input s) =
           Inr \<lparr> isCorrect = False, timeTaken = wordElapsed now s, word = currentWord (gameState s) \<rparr>"
    unfolding p using handleIncorrectWord_ok(1)[OF n] by simp
  show "gameState (snd (processInput now rnd input s)) =
           (gameState s)
             \<lparr> totalWords := totalWords (gameState s) + 1,
               mistakes := mistakes (gameState s) + 1,
               streak := 0,
               multiplier := 1,
               userInput := [],
               wordsTyped := wordsTyped (gameState s) @ [currentWord (gameState s)],
               currentWord := w \<rparr>"
    unfolding p using handleIncorrectWord_ok(2)[OF n] by simp
  show "currentSettings (snd (processInput now rnd input s)) = currentSettings s"
    unfolding p using handleIncorrectWord_ok(4)[OF n] by simp
qed

lemma processInput_midword:
  assumes "length input < length (currentWord (gameState s))"
  shows "processInput now rnd input s =
           (Inr \<lparr> isCorrect = False, timeTaken = wordElapsed now s, word = currentWord (gameState s) \<rparr>,
            s\<lparr> gameState := (gameState s)\<lparr> userInput := input \<rparr> \<rparr>)"
proof -
  from assms have "input \<noteq> currentWord (gameState s)" by auto
  with assms show ?thesis by (simp add: processInput_def Let_def)
qed

lemma skipWord_ok:
  assumes "fst (getNextWord rnd s) = Inr w"
  shows "fst (skipWord now rnd s) = Inr ()"
    and "gameState (snd (skipWord now rnd s)) =
           (gameState s)
             \<lparr> totalWords := totalWords (gameState s) + 1,
               mistakes := mistakes (gameState s) + 1,
               streak := 0,
               multiplier := 1,
               userInput := [],
               wordsTyped := wordsTyped (gameState s) @ [currentWord (gameState s)],
               currentWord := w \<rparr>"
proof -
  obtain r s1 where h: "handleIncorrectWord now rnd (wordElapsed now s) s = (r, s1)"
    by (cases "handleIncorrectWord now rnd (wordElapsed now s) s")
  from handleIncorrectWord_ok(1)[OF assms, of now "wordElapsed now s"] h
  obtain res where r: "r = Inr res" by simp
  show "fst (skipWord now rnd s) = Inr ()" by (simp add: skipWord_def h r)
  show "gameState (snd (skipWord now rnd s)) =
           (gameState s)
             \<lparr> totalWords := totalWords (gameState s) + 1,
               mistakes := mistakes (gameState s) + 1,
               streak := 0,
               multiplier := 1,
               userInput := [],
               wordsTyped := wordsTyped (gameState s) @ [currentWord (gameState s)],
               currentWord := w \<rparr>"
    using handleIncorrectWord_ok(2)[OF assms, of now "wordElapsed now s"] h
    by (simp add: skipWord_def r)
qed

lemma wordTimerFire_timeout:
  assumes "fst (getNextWord rnd s) = Inr w"
    and "map_of (liveWordTimers s) k = Some limit"
    and "wordElapsed now1 s < limit"
    and "Running (gameState s)"
    and "getTimePerWord (difficulty (currentSettings s)) \<le> wordElapsed now2 s"
  shows "wordTimerFire k now1 now2 rnd s = snd (skipWord now2 rnd s)"
proof -
  obtain r s1 where h: "skipWord now2 rnd s = (r, s1)" by (cases "skipWord now2 rnd s")
  with skipWord_ok(1)[OF assms(1), of now2] have r: "r = Inr ()" by simp
  show ?thesis
    using assms(2-5) by (simp add: wordTimerFire_def Running_def h r)
qed

lemma Math_round_of_int: "Math_round (of_int n) = n"
  unfolding Math_round_def by linarith

lemma find_Some_mem: "find P xs = Some y \<Longrightarrow> y \<in> set xs \<and> P y"
  by (induction xs) (auto split: if_splits)

lemma getRandomWord_Inr_names:
  assumes "getRandomWord rnd cat diff = Inr w"
  shows "cat \<in> set (map name categories) \<and> diff \<in> set (map level_name difficultyLevels)"
proof -
  from assms obtain c where c: "find (\<lambda>c. name c = cat) categories = Some c"
    by (auto simp: getRandomWord_def split: option.splits)
  from assms c obtain d where d: "find (\<lambda>d. level_name d = diff) difficultyLevels = Some d"
    by (auto simp: getRandomWord_def split: option.splits)
  from find_Some_mem[OF c] find_Some_mem[OF d] show ?thesis by force
qed

lemma beginSession_settings: "currentSettings (beginSession now w s) = currentSettings s"
  by (simp add: beginSession_def startWordTimer_def startGameTimer_def Let_def)

lemma startGame_wordSourceOk:
  assumes "fst (startGame now rnd settings s) = Inr ()"
  shows "wordSourceOk (snd (startGame now rnd settings s))"
proof -
  define s1 where "s1 = (case settings of None \<Rightarrow> s
                | Some p \<Rightarrow> s\<lparr> currentSettings := mergeSettings (currentSettings s) p \<rparr>)"
  show ?thesis
  proof (cases "if isCustomMode (currentSettings s1) then customText (currentSettings s1) else None")
    case None
    with assms obtain w where
      w: "getRandomWord rnd (category (currentSettings s1)) (difficulty (currentSettings s1)) = Inr w"
      by (auto simp: startGame_def s1_def[symmetric] Let_def split: sum.splits)
    from None w have "snd (startGame now rnd settings s) = beginSession now w s1"
      by (simp add: startGame_def s1_def[symmetric] Let_def)
    with getRandomWord_Inr_names[OF w] show ?thesis
      by (simp add: wordSourceOk_def beginSession_settings)
  next
    case (Some ct)
    then have cm: "isCustomMode (currentSettings s1)" by (simp split: if_splits)
    obtain w s2 where g: "getNextCustomWord (initializeCustomText ct s1) = (w, s2)"
      by (cases "getNextCustomWord (initializeCustomText ct s1)")
    have "currentSettings s2 = currentSettings s1"
      using getNextCustomWord_frame(2)[of "initializeCustomText ct s1"] g
      by (simp add: initializeCustomText_def)
    moreover from Some g have "snd (startGame now rnd settings s) = beginSession now w s2"
      by (simp add: startGame_def s1_def[symmetric] Let_def)
    ultimately show ?thesis using cm
      by (simp add: wordSourceOk_def beginSession_settings)
  qed
qed

lemma incorrectCommit_update:
  "incorrectCommit g w
     (g\<lparr> totalWords := totalWords g + 1, mistakes := mistakes g + 1, streak := 0,
          multiplier := 1, userInput := [], wordsTyped := wordsTyped g @ [currentWord g],
          currentWord := w \<rparr>)"
  by (simp add: incorrectCommit_def)

lemma getNextWord_gameState_cong:
  assumes "totalWords g2 = totalWords (gameState s)"
  shows "getNextWord rnd (s\<lparr> gameState := g2 \<rparr>)
           = (fst (getNextWord rnd s), (snd (getNextWord rnd s))\<lparr> gameState := g2 \<rparr>)"
  using assms by (simp add: getNextWord_def getNextCustomWord_def Let_def split: prod.splits)

lemma restartWordTimer_gameState_upd:
  "gameState (restartWordTimer (s\<lparr> gameState := g, wordStartTime := n \<rparr>)) = g"
  by (simp add: restartWordTimer_frame)

lemma processInput_flags:
  "fst (processInput now rnd input (s\<lparr> gameState := withFlags p v z (gameState s) \<rparr>))
     = fst (processInput now rnd input s)"
  "gameState (snd (processInput now rnd input (s\<lparr> gameState := withFlags p v z (gameState s) \<rparr>)))
     = withFlags p v z (gameState (snd (processInput now rnd input s)))"
proof -
  obtain r s1 where g: "getNextWord rnd s = (r, s1)" by (cases "getNextWord rnd s")
  have gs: "gameState s1 = gameState s" using getNextWord_frame(1)[of rnd s] g by simp
  show "fst (processInput now rnd input (s\<lparr> gameState := withFlags p v z (gameState s) \<rparr>))
     = fst (processInput now rnd input s)"
    by (cases r)
       (simp_all add: processInput_def handleCorrectWord_def handleIncorrectWord_def Let_def
          withFlags_def wordElapsed_def getNextWord_gameState_cong g)
  show "gameState (snd (processInput now rnd input (s\<lparr> gameState := withFlags p v z (gameState s) \<rparr>)))
     = withFlags p v z (gameState (snd (processInput now rnd input s)))"
    by (cases r)
       (simp_all add: processInput_def handleCorrectWord_def handleIncorrectWord_def Let_def
          withFlags_def wordElapsed_def getNextWord_gameState_cong g restartWordTimer_frame)
qed


lemma withFlags_restore:
  "s\<lparr> gameState := withFlags (isPlaying (gameState s)) (isGameOver (gameState s))
                        (isPaused (gameState s)) (withFlags p v z (gameState s)) \<rparr> = s"
  by (simp add: withFlags_def)

lemma patternOf_total: "\<exists>p. patternOf ty = Some p \<and> pattern_type p = ty"
  by (cases ty) (simp_all add: patternOf_def errorPatterns_def)

lemma stopTimers_frame:
  "gameState (stopTimers s) = gameState s"
  "wordStartTime (stopTimers s) = wordStartTime s"
  "currentSettings (stopTimers s) = currentSettings s"
  "timerSubscription (stopTimers s) = timerSubscription s"
  "wordTimerSubscription (stopTimers s) = wordTimerSubscription s"
  by (simp_all add: stopTimers_def unsubscribeGame_def unsubscribeWord_def split: option.splits)

lemma endGame_gameState:
  "gameState (endGame s) = (gameState s)\<lparr> isPlaying := False, isGameOver := True, isPaused := False \<rparr>"
  by (simp add: endGame_def Let_def stopTimers_frame)

lemma gameTimerFire_decrement:
  assumes "Running (gameState s)" and "k \<in> set (liveGameTimers s)"
    and "1 < timeRemaining (gameState s)"
  shows "gameTimerFire k s
           = s\<lparr> gameState := (gameState s)\<lparr> timeRemaining := timeRemaining (gameState s) - 1 \<rparr> \<rparr>"
  using assms by (simp add: gameTimerFire_def Running_def Let_def max_def)

lemma gameTimerFire_last:
  assumes "Running (gameState s)" and "k \<in> set (liveGameTimers s)"
    and "0 < timeRemaining (gameState s)" and "timeRemaining (gameState s) \<le> 1"
  shows "gameState (gameTimerFire k s)
           = (gameState s)\<lparr> timeRemaining := 0, isPlaying := False, isGameOver := True,
                             isPaused := False \<rparr>"
  using assms by (simp add: gameTimerFire_def Running_def Let_def max_def endGame_gameState)

lemma gameTimerFire_zero:
  assumes "k \<in> set (liveGameTimers s)" and "timeRemaining (gameState s) \<le> 0"
  shows "gameState (gameTimerFire k s) = gameState s"
  using assms by (simp add: gameTimerFire_def)

lemma runTicks_snoc: "runTicks (ts @ [t]) s = tickStep t (runTicks ts s)"
  by (simp add: runTicks_def)

lemma replicate_Suc_snoc: "replicate (Suc m) x = replicate m x @ [x]"
  by (simp add: replicate_append_same)

lemma countdown:
  assumes "Running (gameState s)" and "k \<in> set (liveGameTimers s)"
    and "timeRemaining (gameState s) = of_nat n"
  shows "m \<le> n \<Longrightarrow>
         timeRemaining (gameState (runTicks (replicate m (GameTick k)) s)) = of_nat (n - m) \<and>
         (m < n \<longrightarrow> Running (gameState (runTicks (replicate m (GameTick k)) s)) \<and>
                   k \<in> set (liveGameTimers (runTicks (replicate m (GameTick k)) s))) \<and>
         (m = n \<and> 0 < n \<longrightarrow> Over (gameState (runTicks (replicate m (GameTick k)) s)))"
proof (induction m)
  case 0
  then show ?case using assms by (auto simp: runTicks_def)
next
  case (Suc m)
  let ?s = "runTicks (replicate m (GameTick k)) s"
  from Suc have m: "m < n" by simp
  with Suc.IH have t: "timeRemaining (gameState ?s) = of_nat (n - m)"
    and r: "Running (gameState ?s)" and l: "k \<in> set (liveGameTimers ?s)" by simp_all
  have step0: "runTicks (replicate (Suc m) (GameTick k)) s = gameTimerFire k ?s"
    by (simp only: replicate_Suc_snoc runTicks_snoc tickStep.simps)
  then have step: "runTicks (GameTick k # replicate m (GameTick k)) s = gameTimerFire k ?s"
    by simp
  show ?case
  proof (cases "Suc m = n")
    case True
    then have "n - m = 1" by simp
    with t have t1: "timeRemaining (gameState ?s) = 1" by simp
    have "gameState (gameTimerFire k ?s)
            = (gameState ?s)\<lparr> timeRemaining := 0, isPlaying := False, isGameOver := True,
                               isPaused := False \<rparr>"
      using gameTimerFire_last[OF r l] t1 by simp
    then show ?thesis by (simp add: step Over_def True[symmetric])
  next
    case False
    with m have lt: "Suc m < n" by simp
    then have "(1::rat) < of_nat (n - m)"
      by (metis Suc_lessD less_diff_conv of_nat_1 of_nat_less_iff plus_1_eq_Suc zero_less_diff add.commute)
    with t have t1: "1 < timeRemaining (gameState ?s)" by simp
    have e: "gameTimerFire k ?s
            = ?s\<lparr> gameState := (gameState ?s)\<lparr> timeRemaining := timeRemaining (gameState ?s) - 1 \<rparr> \<rparr>"
      using gameTimerFire_decrement[OF r l t1] .
    have "(of_nat (n - m) :: rat) - 1 = of_nat (n - Suc m)"
      using lt by (simp add: of_nat_diff)
    then show ?thesis using lt r l t by (simp add: step e Running_def)
  qed
qed

lemma beginSession_facts:
  "gameState (beginSession now w s)
     = getInitialState\<lparr> isPlaying := True, currentWord := w,
                          timeRemaining := gameDuration (currentSettings s) \<rparr>"
  "timerSubscription (beginSession now w s) = Some (nextSubscription s)"
  "nextSubscription s \<in> set (liveGameTimers (beginSession now w s))"
  "wordStartTime (beginSession now w s) = now"
  by (simp_all add: beginSession_def startWordTimer_def startGameTimer_def Let_def)

lemma startGame_beginSession:
  assumes "fst (startGame now rnd settings s) = Inr ()"
  shows "\<exists>w s2. snd (startGame now rnd settings s) = beginSession now w s2"
proof -
  define s1 where "s1 = (case settings of None \<Rightarrow> s
                | Some p \<Rightarrow> s\<lparr> currentSettings := mergeSettings (currentSettings s) p \<rparr>)"
  show ?thesis
  proof (cases "if isCustomMode (currentSettings s1) then customText (currentSettings s1) else None")
    case None
    with assms obtain w where
      w: "getRandomWord rnd (category (currentSettings s1)) (difficulty (currentSettings s1)) = Inr w"
      by (auto simp: startGame_def s1_def[symmetric] Let_def split: sum.splits)
    from None w have "snd (startGame now rnd settings s) = beginSession now w s1"
      by (simp add: startGame_def s1_def[symmetric] Let_def)
    then show ?thesis by blast
  next
    case (Some ct)
    obtain w s2 where g: "getNextCustomWord (initializeCustomText ct s1) = (w, s2)"
      by (cases "getNextCustomWord (initializeCustomText ct s1)")
    from Some g have "snd (startGame now rnd settings s) = beginSession now w s2"
      by (simp add: startGame_def s1_def[symmetric] Let_def)
    then show ?thesis by blast
  qed
qed

lemma startGame_started:
  assumes "fst (startGame now rnd settings s) = Inr ()"
  shows "Running (gameState (snd (startGame now rnd settings s)))"
    and "timeRemaining (gameState (snd (startGame now rnd settings s)))
           = gameDuration (currentSettings (snd (startGame now rnd settings s)))"
    and "\<exists>k. timerSubscription (snd (startGame now rnd settings s)) = Some k \<and>
              k \<in> set (liveGameTimers (snd (startGame now rnd settings s)))"
proof -
  obtain w s2 where b: "snd (startGame now rnd settings s) = beginSession now w s2"
    using startGame_beginSession[OF assms] by blast
  show "Running (gameState (snd (startGame now rnd settings s)))"
    by (simp add: b beginSession_facts Running_def getInitialState_def)
  show "timeRemaining (gameState (snd (startGame now rnd settings s)))
           = gameDuration (currentSettings (snd (startGame now rnd settings s)))"
    by (simp add: b beginSession_facts beginSession_settings)
  show "\<exists>k. timerSubscription (snd (startGame now rnd settings s)) = Some k \<and>
              k \<in> set (liveGameTimers (snd (startGame now rnd settings s)))"
    by (simp add: b beginSession_facts)
qed

lemma stopTimers_not_live:
  "timerSubscription s = Some k \<Longrightarrow> k \<notin> set (liveGameTimers (stopTimers s))"
  "wordTimerSubscription s = Some j \<Longrightarrow> map_of (liveWordTimers (stopTimers s)) j = None"
  by (auto simp: stopTimers_def unsubscribeGame_def unsubscribeWord_def map_of_eq_None_iff
        split: option.splits)

lemma tickStep_paused:
  assumes "isPaused (gameState s)"
  shows "gameState (tickStep t s) = gameState s"
    and "wordStartTime (tickStep t s) = wordStartTime s"
    and "currentSettings (tickStep t s) = currentSettings s"
  using assms
  by (cases t; simp add: gameTimerFire_def wordTimerFire_def unsubscribeWord_def
        split: option.splits)+

lemma runTicks_paused:
  "isPaused (gameState s) \<Longrightarrow>
     gameState (runTicks ts s) = gameState s \<and> wordStartTime (runTicks ts s) = wordStartTime s \<and>
     currentSettings (runTicks ts s) = currentSettings s"
proof (induction ts arbitrary: s)
  case Nil
  then show ?case by (simp add: runTicks_def)
next
  case (Cons t ts)
  have p: "isPaused (gameState (tickStep t s))"
    using tickStep_paused(1)[OF Cons.prems] Cons.prems by simp
  have "runTicks (t # ts) s = runTicks ts (tickStep t s)" by (simp add: runTicks_def)
  with Cons.IH[OF p] tickStep_paused[OF Cons.prems, of t] show ?case by simp
qed

lemma pauseGame_pause:
  assumes "\<not> isPaused (gameState s)"
  shows "pauseGame s = stopTimers (s\<lparr> gameState := (gameState s)\<lparr> isPaused := True \<rparr> \<rparr>)"
  using assms by (simp add: pauseGame_def Let_def)

lemma pauseGame_resume:
  assumes "isPaused (gameState s)"
  shows "pauseGame s
           = startWordTimer (startGameTimer (s\<lparr> gameState := (gameState s)\<lparr> isPaused := False \<rparr> \<rparr>))"
  using assms by (simp add: pauseGame_def Let_def)

lemma startTimers_facts:
  "gameState (startWordTimer (startGameTimer s)) = gameState s"
  "wordStartTime (startWordTimer (startGameTimer s)) = wordStartTime s"
  "timerSubscription (startWordTimer (startGameTimer s)) = Some (nextSubscription s)"
  "liveGameTimers (startWordTimer (startGameTimer s)) = nextSubscription s # liveGameTimers s"
  "wordTimerSubscription (startWordTimer (startGameTimer s)) = Some (Suc (nextSubscription s))"
  "liveWordTimers (startWordTimer (startGameTimer s))
     = (Suc (nextSubscription s), getTimePerWord (difficulty (currentSettings s))) # liveWordTimers s"
  by (simp_all add: startWordTimer_def startGameTimer_def Let_def)

lemma wordTimerFire_expired:
  assumes "map_of (liveWordTimers s) k = Some limit" and "limit \<le> wordElapsed now1 s"
  shows "wordTimerFire k now1 now2 rnd s = unsubscribeWord (Some k) s"
  using assms by (simp add: wordTimerFire_def)

lemma words_of_Nil: "words_of [] = []"
  by simp

declare words_of.simps [simp del]

lemma words_of_space: "isSpace c \<Longrightarrow> words_of (c # cs) = words_of (dropWhile isSpace cs)"
  by (subst words_of.simps, subst (2) words_of.simps) simp

lemma words_of_nonspace:
  "\<not> isSpace c \<Longrightarrow>
     words_of (c # cs) = (c # takeWhile (\<lambda>c. \<not> isSpace c) cs) # words_of (dropWhile (\<lambda>c. \<not> isSpace c) cs)"
  by (subst words_of.simps) simp

lemma words_of_dropWhile: "words_of (dropWhile isSpace cs) = words_of cs"
  by (induction cs) (simp_all add: words_of_space words_of_Nil)

lemma words_of_head:
  "(if takeWhile (\<lambda>c. \<not> isSpace c) cs = [] then [] else [takeWhile (\<lambda>c. \<not> isSpace c) cs])
     @ words_of (dropWhile (\<lambda>c. \<not> isSpace c) cs) = words_of cs"
proof (cases cs)
  case Nil
  then show ?thesis by (simp add: words_of_Nil)
next
  case (Cons c cs')
  show ?thesis
  proof (cases "isSpace c")
    case True
    then show ?thesis by (simp add: Cons)
  next
    case False
    then show ?thesis by (simp add: Cons words_of_nonspace)
  qed
qed

lemma splitWhitespace_words:
  "filter (\<lambda>w. length w > 0) (splitWhitespace acc cs)
     = (if rev acc @ takeWhile (\<lambda>c. \<not> isSpace c) cs = [] then []
        else [rev acc @ takeWhile (\<lambda>c. \<not> isSpace c) cs])
       @ words_of (dropWhile (\<lambda>c. \<not> isSpace c) cs)"
proof (induction acc cs rule: splitWhitespace.induct)
  case (1 acc)
  then show ?case by (simp add: words_of_Nil)
next
  case (2 acc c cs)
  show ?case
  proof (cases "isSpace c")
    case True
    have "filter (\<lambda>w. length w > 0) (splitWhitespace [] (dropWhile isSpace cs))
            = words_of (dropWhile isSpace cs)"
      using 2(1)[OF True] by (simp only: rev.simps append_Nil words_of_head)
    then show ?thesis using True
      by (simp add: words_of_space)
  next
    case False
    then show ?thesis using 2(2)[OF False] by (simp)
  qed
qed

lemma filter_map_nonempty:
  assumes "f [] = []"
  shows "filter (\<lambda>w. length w > 0) (map f xs)
           = filter (\<lambda>w. length w > 0) (map f (filter (\<lambda>w. length w > 0) xs))"
  using assms by (induction xs) auto

lemma tokenize_words:
  "tokenize text
     = filter (\<lambda>w. w \<noteq> []) (map (filter (\<lambda>c. \<not> isPunctuation c)) (words_of (map toLowerCase text)))"
proof -
  have "filter (\<lambda>w. length w > 0) (splitWhitespace [] (map toLowerCase text))
          = words_of (map toLowerCase text)"
    by (simp only: splitWhitespace_words rev.simps append_Nil words_of_head)
  then have "tokenize text
     = filter (\<lambda>w. length w > 0) (map (filter (\<lambda>c. \<not> isPunctuation c)) (words_of (map toLowerCase text)))"
    unfolding tokenize_def
    using filter_map_nonempty[of "filter (\<lambda>c. \<not> isPunctuation c)"
            "splitWhitespace [] (map toLowerCase text)"]
    by simp
  then show ?thesis by simp
qed

lemma getNextCustomWord_step:
  assumes "customTextWords s \<noteq> []"
  shows "fst (getNextCustomWord s) = customTextWords s ! customTextIndex s"
    and "customTextIndex (snd (getNextCustomWord s))
           = (customTextIndex s + 1) mod length (customTextWords s)"
    and "scheduledEndGame (snd (getNextCustomWord s))
           = (if (customTextIndex s + 1) mod length (customTextWords s) = 0
                 \<and> totalWords (gameState s) > 0
              then scheduledEndGame s @ [100] else scheduledEndGame s)"
  using assms by (simp_all add: getNextCustomWord_def Let_def)

lemma serveCustom_cyclic:
  "customTextWords s \<noteq> [] \<Longrightarrow> customTextIndex s < length (customTextWords s) \<Longrightarrow>
     fst (serveCustom n s)
       = map (\<lambda>i. customTextWords s ! ((customTextIndex s + i) mod length (customTextWords s)))
           [0..<n]"
proof (induction n arbitrary: s)
  case 0
  then show ?case by simp
next
  case (Suc n)
  obtain w s1 where g: "getNextCustomWord s = (w, s1)" by (cases "getNextCustomWord s")
  have w: "w = customTextWords s ! customTextIndex s"
    and i: "customTextIndex s1 = (customTextIndex s + 1) mod length (customTextWords s)"
    and c: "customTextWords s1 = customTextWords s"
    using getNextCustomWord_step(1,2)[OF Suc.prems(1)] getNextCustomWord_frame(8)[of s] g by simp_all
  have ne: "customTextWords s1 \<noteq> []" using Suc.prems c by simp
  have lt: "customTextIndex s1 < length (customTextWords s1)" using Suc.prems(1) by (simp add: i c)
  have m: "\<And>j. (Suc (customTextIndex s) mod length (customTextWords s) + j) mod length (customTextWords s)
              = Suc (customTextIndex s + j) mod length (customTextWords s)"
  proof -
    fix j
    show "(Suc (customTextIndex s) mod length (customTextWords s) + j) mod length (customTextWords s)
              = Suc (customTextIndex s + j) mod length (customTextWords s)"
      using mod_add_left_eq[of "Suc (customTextIndex s)" "length (customTextWords s)" j] by simp
  qed
  have "fst (serveCustom (Suc n) s) = w # fst (serveCustom n s1)"
    by (simp add: g split: prod.splits)
  also have "\<dots> = w # map (\<lambda>j. customTextWords s ! ((customTextIndex s + Suc j) mod length (customTextWords s))) [0..<n]"
    using Suc.IH[OF ne lt] by (simp add: c i m)
  also have "\<dots> = map (\<lambda>i. customTextWords s ! ((customTextIndex s + i) mod length (customTextWords s)))
                      (0 # map Suc [0..<n])"
    using Suc.prems by (simp add: w comp_def)
  also have "0 # map Suc [0..<n] = [0..<Suc n]"
    by (simp add: map_Suc_upt upt_conv_Cons del: upt_Suc)
  finally show ?case .
qed

lemma getNextWord_custom:
  "isCustomMode (currentSettings s) \<Longrightarrow>
     getNextWord rnd s = (Inr (fst (getNextCustomWord s)), snd (getNextCustomWord s))"
  by (simp add: getNextWord_def split: prod.splits)

lemma processInput_commit_schedule:
  assumes "fst (getNextWord rnd s) = Inr w"
    and "length (currentWord (gameState s)) \<le> length input"
  shows "scheduledEndGame (snd (processInput now rnd input s))
           = scheduledEndGame (snd (getNextWord rnd s))"
    and "isPlaying (gameState (snd (processInput now rnd input s))) = isPlaying (gameState s)"
    and "isPaused (gameState (snd (processInput now rnd input s))) = isPaused (gameState s)"
    and "isGameOver (gameState (snd (processInput now rnd input s))) = isGameOver (gameState s)"
proof -
  obtain r s1 where g: "getNextWord rnd s = (r, s1)" by (cases "getNextWord rnd s")
  with assms(1) have r: "r = Inr w" by simp
  show "scheduledEndGame (snd (processInput now rnd input s))
           = scheduledEndGame (snd (getNextWord rnd s))"
    using assms(2)
    by (simp add: processInput_def handleCorrectWord_def handleIncorrectWord_def Let_def
          getNextWord_gameState_cong g r restartWordTimer_frame)
  show "isPlaying (gameState (snd (processInput now rnd input s))) = isPlaying (gameState s)"
    using assms(2) processInput_currentWord(2)[OF assms(1), of now]
      processInput_incorrect(2)[OF assms(1), of input now]
    by (cases "input = currentWord (gameState s)") simp_all
  show "isPaused (gameState (snd (processInput now rnd input s))) = isPaused (gameState s)"
    using assms(2) processInput_currentWord(2)[OF assms(1), of now]
      processInput_incorrect(2)[OF assms(1), of input now]
    by (cases "input = currentWord (gameState s)") simp_all
  show "isGameOver (gameState (snd (processInput now rnd input s))) = isGameOver (gameState s)"
    using assms(2) processInput_currentWord(2)[OF assms(1), of now]
      processInput_incorrect(2)[OF assms(1), of input now]
    by (cases "input = currentWord (gameState s)") simp_all
qed

lemma endGameTimeoutFire_Over:
  "scheduledEndGame s \<noteq> [] \<Longrightarrow> Over (gameState (endGameTimeoutFire s))"
  by (cases "scheduledEndGame s") (simp_all add: endGameTimeoutFire_def endGame_gameState Over_def)

section \<open>The claims\<close>

subsection \<open>Committing a correct word\<close>

text \<open>
  Claim C1, amended. In a Running session whose word source answers, \<open>processInput\<close> of
  an input equal to the current word returns a correct result and commits the word: the
  score grows by the rounded product of the multiplier before the word and the sum of the
  base score (ten times the length), the time bonus, and the streak bonus (fifty times
  the streak before the word divided by five, rounded down). The time bonus is
  \<open>max 0 (round ((3 - t) * 5))\<close> as double-precision arithmetic computes it, the
  difference and the product each rounded to the nearest double before \<open>round\<close> is
  taken; it is not negative. The streak grows by one; the multiplier becomes
  \<open>min 5 (1 + floor (streak / 10) * 0.5)\<close> of the new streak; \<open>correctWords\<close> and
  \<open>totalWords\<close> grow by one; the input is emptied; the current word is the one the word
  source returns. Typing \<open>''the''\<close> in one second with streak 0 and multiplier 1 adds 40
  points and sets the streak to 1.
\<close>

theorem correct_word_commit:
  fixes s :: GameService and now :: int and rnd :: rat and input :: string
  assumes "Running (gameState s)" and "wordSourceOk s" and "input = currentWord (gameState s)"
  defines "g \<equiv> gameState s"
    and "g' \<equiv> gameState (snd (processInput now rnd input s))"
    and "t \<equiv> wordElapsed now s"
  shows "\<exists>w. fst (getNextWord rnd s) = Inr w \<and>
           fst (processInput now rnd input s)
             = Inr \<lparr> isCorrect = True, timeTaken = t, word = currentWord g \<rparr> \<and>
           score g' = score g +
             Math_round (of_int (int (length (currentWord g)) * 10
                                 + max 0 (Math_round (roundToDouble (roundToDouble (3 - t) * 5)))
                                 + (streak g div 5) * 50) * multiplier g) \<and>
           0 \<le> max 0 (Math_round (roundToDouble (roundToDouble (3 - t) * 5))) \<and>
           streak g' = streak g + 1 \<and>
           multiplier g' = min 5 (1 + of_int (streak g' div 10) * (1 / 2)) \<and>
           correctWords g' = correctWords g + 1 \<and>
           totalWords g' = totalWords g + 1 \<and>
           userInput g' = [] \<and>
           currentWord g' = w \<and>
           (currentWord g = ''the'' \<and> t = 1 \<and> streak g = 0 \<and> multiplier g = 1
              \<longrightarrow> score g' = score g + 40 \<and> streak g' = 1)"
proof -
  obtain w where w: "fst (getNextWord rnd s) = Inr w"
    using getNextWord_ok[OF assms(2)] by blast
  have r: "fst (processInput now rnd input s)
             = Inr \<lparr> isCorrect = True, timeTaken = t, word = currentWord g \<rparr>"
    using processInput_currentWord(1)[OF w, of now] assms(3) by (simp add: g_def t_def)
  have st: "g' = g\<lparr> score := score g +
                  Math_round (of_int (baseScore (currentWord g) + timeBonus t + streakBonus (streak g))
                              * multiplier g),
               correctWords := correctWords g + 1,
               totalWords := totalWords g + 1,
               streak := streak g + 1,
               multiplier := newMultiplier (streak g + 1),
               userInput := [],
               wordsTyped := wordsTyped g @ [currentWord g],
               currentWord := w \<rparr>"
    using processInput_currentWord(2)[OF w, of now] assms(3) by (simp add: g_def g'_def t_def)
  have sc: "score g' = score g +
             Math_round (of_int (int (length (currentWord g)) * 10
                                 + max 0 (Math_round (roundToDouble (roundToDouble (3 - t) * 5)))
                                 + (streak g div 5) * 50) * multiplier g)"
    by (simp add: st baseScore_def timeBonus_def streakBonus_def)
  have mu: "multiplier g' = min 5 (1 + of_int (streak g' div 10) * (1 / 2))"
    by (simp add: st newMultiplier_def)
  have tb: "timeBonus 1 = 10" by code_simp
  have a: "currentWord g = ''the'' \<and> t = 1 \<and> streak g = 0 \<and> multiplier g = 1
              \<longrightarrow> score g' = score g + 40 \<and> streak g' = 1"
    using Math_round_of_int[of 40] by (simp add: st baseScore_def tb streakBonus_def)
  show ?thesis
    using w r sc mu a by (intro exI[of _ w]) (simp add: st)
qed

theorem correct_word_commit_witness:
  "Running (gameState easySession) \<and> wordSourceOk easySession \<and>
   ''the'' = currentWord (gameState easySession) \<and>
   score (gameState (snd (processInput 1000 0 ''the'' easySession))) = 40 \<and>
   streak (gameState (snd (processInput 1000 0 ''the'' easySession))) = 1 \<and>
   score (gameState (snd (processInput 100 0 ''the'' easySession))) = 45 \<and>
   Running (gameState streakSession) \<and> wordSourceOk streakSession \<and>
   ''the'' = currentWord (gameState streakSession) \<and>
   streak (gameState streakSession) = 10 \<and> multiplier (gameState streakSession) = 3 / 2 \<and>
   score (gameState (snd (processInput 1200 0 ''the'' streakSession)))
     = score (gameState streakSession) + 209 \<and>
   streak (gameState (snd (processInput 1200 0 ''the'' streakSession))) = 11 \<and>
   multiplier (gameState (snd (processInput 1200 0 ''the'' streakSession))) = 3 / 2"
proof -
  have h1: "Running (gameState easySession)" by code_simp
  have h2: "wordSourceOk easySession" by code_simp
  have h3: "''the'' = currentWord (gameState easySession)" by code_simp
  have e: "currentWord (gameState easySession) = ''the'' \<and> wordElapsed 1000 easySession = 1 \<and>
           streak (gameState easySession) = 0 \<and> multiplier (gameState easySession) = 1"
    by code_simp
  have z: "score (gameState easySession) = 0" by code_simp
  from correct_word_commit[OF h1 h2 h3, where now = 1000 and rnd = 0] e z
  have a: "score (gameState (snd (processInput 1000 0 ''the'' easySession))) = 40 \<and>
        streak (gameState (snd (processInput 1000 0 ''the'' easySession))) = 1"
    by auto
  have v1: "score (gameState easySession) +
             Math_round (of_int (int (length (currentWord (gameState easySession))) * 10
                 + max 0 (Math_round (roundToDouble
                            (roundToDouble (3 - wordElapsed 100 easySession) * 5)))
                 + (streak (gameState easySession) div 5) * 50)
               * multiplier (gameState easySession)) = 45"
    by code_simp
  from correct_word_commit[OF h1 h2 h3, where now = 100 and rnd = 0]
  have b: "score (gameState (snd (processInput 100 0 ''the'' easySession))) = 45"
    unfolding v1[symmetric] by blast
  have k1: "Running (gameState streakSession)" by code_simp
  have k2: "wordSourceOk streakSession" by code_simp
  have k3: "''the'' = currentWord (gameState streakSession)" by code_simp
  have k4: "streak (gameState streakSession) = 10 \<and> multiplier (gameState streakSession) = 3 / 2"
    by code_simp
  have v2: "Math_round (of_int (int (length (currentWord (gameState streakSession))) * 10
                 + max 0 (Math_round (roundToDouble
                            (roundToDouble (3 - wordElapsed 1200 streakSession) * 5)))
                 + (streak (gameState streakSession) div 5) * 50)
               * multiplier (gameState streakSession)) = 209"
    by code_simp
  note t = correct_word_commit[OF k1 k2 k3, where now = 1200 and rnd = 0]
  have c1: "score (gameState (snd (processInput 1200 0 ''the'' streakSession)))
              = score (gameState streakSession) + 209"
    unfolding v2[symmetric] using t by blast
  have c2: "streak (gameState (snd (processInput 1200 0 ''the'' streakSession))) = 11"
    using t k4 by auto
  have m11: "min (5::rat) (1 + of_int (11 div 10) * (1 / 2)) = 3 / 2" by simp
  have c3: "multiplier (gameState (snd (processInput 1200 0 ''the'' streakSession))) = 3 / 2"
    using t c2 m11 by auto
  from h1 h2 h3 a b k1 k2 k3 k4 c1 c2 c3 show ?thesis by blast
qed

text \<open>
  Claim C1 as stated fails where the rounding of the doubles crosses a half. The word
  \<open>''the''\<close> is typed 2700 milliseconds after it started, with streak 0 and multiplier 1:
  the claim's formula gives the time bonus \<open>round ((3 - 2.7) * 5) = round 1.5 = 2\<close> and
  32 points, while the code computes \<open>3 - 2.7\<close> as the double 0.2999999999999998, its
  product with 5 as 1.4999999999999991, the time bonus 1 and 31 points.
\<close>

theorem correct_word_commit_counterexample:
  "Running (gameState easySession) \<and> currentWord (gameState easySession) = ''the'' \<and>
   streak (gameState easySession) = 0 \<and> multiplier (gameState easySession) = 1 \<and>
   score (gameState easySession) = 0 \<and>
   wordElapsed 2700 easySession = roundToDouble (27 / 10) \<and>
   Math_round (of_int (int (length ''the'') * 10 + max 0 (Math_round ((3 - 27 / 10) * 5))
                       + (0 div 5) * 50) * 1) = 32 \<and>
   fst (processInput 2700 0 ''the'' easySession)
     = Inr \<lparr> isCorrect = True, timeTaken = roundToDouble (27 / 10), word = ''the'' \<rparr> \<and>
   score (gameState (snd (processInput 2700 0 ''the'' easySession))) = 31"
  by code_simp

subsection \<open>Committing an incorrect word\<close>

text \<open>
  Claim C2. Whatever the state of a session whose word source answers, and whatever the
  streak and the input were, each of the three incorrect-word commits (\<open>processInput\<close>
  of an input that is not the current word and is at least as long, \<open>skipWord\<close>, and
  the word-timer callback when it reaches its call of \<open>skipWord\<close>) adds one to
  \<open>totalWords\<close> and to \<open>mistakes\<close>, sets the streak to 0 and the multiplier to 1,
  leaves the score and \<open>correctWords\<close> as they were, empties the input and makes the
  word returned by the word source the current word.
\<close>

theorem incorrect_word_commit:
  assumes "wordSourceOk s"
  shows "\<exists>w. fst (getNextWord rnd s) = Inr w \<and>
           (input \<noteq> currentWord (gameState s) \<and> length (currentWord (gameState s)) \<le> length input
              \<longrightarrow> incorrectCommit (gameState s) w (gameState (snd (processInput now rnd input s)))) \<and>
           incorrectCommit (gameState s) w (gameState (snd (skipWord now rnd s))) \<and>
           (map_of (liveWordTimers s) k = Some limit \<and> wordElapsed now1 s < limit \<and>
            Running (gameState s) \<and>
            getTimePerWord (difficulty (currentSettings s)) \<le> wordElapsed now2 s
              \<longrightarrow> incorrectCommit (gameState s) w (gameState (wordTimerFire k now1 now2 rnd s)))"
proof -
  obtain w where w: "fst (getNextWord rnd s) = Inr w"
    using getNextWord_ok[OF assms] by blast
  have a: "input \<noteq> currentWord (gameState s) \<and> length (currentWord (gameState s)) \<le> length input
              \<longrightarrow> incorrectCommit (gameState s) w (gameState (snd (processInput now rnd input s)))"
    using processInput_incorrect(2)[OF w, of input now] incorrectCommit_update by simp
  have b: "incorrectCommit (gameState s) w (gameState (snd (skipWord now rnd s)))"
    using skipWord_ok(2)[OF w, of now] incorrectCommit_update by simp
  have b2: "incorrectCommit (gameState s) w (gameState (snd (skipWord now2 rnd s)))"
    using skipWord_ok(2)[OF w, of now2] incorrectCommit_update by simp
  have c: "map_of (liveWordTimers s) k = Some limit \<and> wordElapsed now1 s < limit \<and>
            Running (gameState s) \<and>
            getTimePerWord (difficulty (currentSettings s)) \<le> wordElapsed now2 s
              \<longrightarrow> incorrectCommit (gameState s) w (gameState (wordTimerFire k now1 now2 rnd s))"
    using wordTimerFire_timeout[OF w, of k limit now1 now2] b2 by auto
  from w a b c show ?thesis by blast
qed

theorem incorrect_word_commit_witness:
  "wordSourceOk easySession \<and>
   ''thx'' \<noteq> currentWord (gameState easySession) \<and>
   length (currentWord (gameState easySession)) \<le> length ''thx'' \<and>
   incorrectCommit (gameState easySession) ''the''
     (gameState (snd (processInput 1000 0 ''thx'' easySession))) \<and>
   incorrectCommit (gameState easySession) ''the'' (gameState (snd (skipWord 1000 0 easySession))) \<and>
   map_of (liveWordTimers easySession) 1 = Some 4 \<and> wordElapsed 3999 easySession < 4 \<and>
   Running (gameState easySession) \<and>
   getTimePerWord (difficulty (currentSettings easySession)) \<le> wordElapsed 4000 easySession \<and>
   incorrectCommit (gameState easySession) ''the''
     (gameState (wordTimerFire 1 3999 4000 0 easySession))"
proof -
  have h: "wordSourceOk easySession" by code_simp
  have n: "fst (getNextWord 0 easySession) = Inr ''the''" by code_simp
  have h1: "''thx'' \<noteq> currentWord (gameState easySession) \<and>
            length (currentWord (gameState easySession)) \<le> length ''thx''" by code_simp
  have h2: "map_of (liveWordTimers easySession) 1 = Some 4 \<and> wordElapsed 3999 easySession < 4 \<and>
            Running (gameState easySession) \<and>
            getTimePerWord (difficulty (currentSettings easySession)) \<le> wordElapsed 4000 easySession"
    by code_simp
  from incorrect_word_commit[OF h, of 0 "''thx''" 1000 1 4 3999 4000] n h1 h2
  have "incorrectCommit (gameState easySession) ''the''
          (gameState (snd (processInput 1000 0 ''thx'' easySession))) \<and>
        incorrectCommit (gameState easySession) ''the'' (gameState (snd (skipWord 1000 0 easySession))) \<and>
        incorrectCommit (gameState easySession) ''the''
          (gameState (wordTimerFire 1 3999 4000 0 easySession))"
    by auto
  with h h1 h2 show ?thesis by blast
qed

subsection \<open>The order of the checks in \<open>processInput\<close>\<close>

text \<open>
  Claim C3. \<open>processInput\<close> first compares the input with the current word and commits a
  correct word if they are equal; otherwise, if the input is at least as long as the
  current word (an input of equal length with a wrong character included), it commits an
  incorrect word; otherwise it returns the result \<open>isCorrect = False\<close> with the elapsed
  time and the current word, and the service is unchanged but for the stored input.
\<close>

theorem processInput_check_order:
  assumes "wordSourceOk s"
  shows "(input = currentWord (gameState s) \<longrightarrow>
            fst (processInput now rnd input s)
              = Inr \<lparr> isCorrect = True, timeTaken = wordElapsed now s, word = currentWord (gameState s) \<rparr> \<and>
            correctWords (gameState (snd (processInput now rnd input s)))
              = correctWords (gameState s) + 1 \<and>
            mistakes (gameState (snd (processInput now rnd input s))) = mistakes (gameState s)) \<and>
         (input \<noteq> currentWord (gameState s) \<and> length (currentWord (gameState s)) \<le> length input \<longrightarrow>
            fst (processInput now rnd input s)
              = Inr \<lparr> isCorrect = False, timeTaken = wordElapsed now s, word = currentWord (gameState s) \<rparr> \<and>
            totalWords (gameState (snd (processInput now rnd input s)))
              = totalWords (gameState s) + 1 \<and>
            mistakes (gameState (snd (processInput now rnd input s))) = mistakes (gameState s) + 1 \<and>
            correctWords (gameState (snd (processInput now rnd input s)))
              = correctWords (gameState s)) \<and>
         (length input < length (currentWord (gameState s)) \<longrightarrow>
            processInput now rnd input s
              = (Inr \<lparr> isCorrect = False, timeTaken = wordElapsed now s,
                       word = currentWord (gameState s) \<rparr>,
                 s\<lparr> gameState := (gameState s)\<lparr> userInput := input \<rparr> \<rparr>))"
proof -
  obtain w where w: "fst (getNextWord rnd s) = Inr w"
    using getNextWord_ok[OF assms] by blast
  have a: "input = currentWord (gameState s) \<longrightarrow>
            fst (processInput now rnd input s)
              = Inr \<lparr> isCorrect = True, timeTaken = wordElapsed now s, word = currentWord (gameState s) \<rparr> \<and>
            correctWords (gameState (snd (processInput now rnd input s)))
              = correctWords (gameState s) + 1 \<and>
            mistakes (gameState (snd (processInput now rnd input s))) = mistakes (gameState s)"
    using processInput_currentWord(1,2)[OF w, of now] by simp
  have b: "input \<noteq> currentWord (gameState s) \<and> length (currentWord (gameState s)) \<le> length input \<longrightarrow>
            fst (processInput now rnd input s)
              = Inr \<lparr> isCorrect = False, timeTaken = wordElapsed now s, word = currentWord (gameState s) \<rparr> \<and>
            totalWords (gameState (snd (processInput now rnd input s)))
              = totalWords (gameState s) + 1 \<and>
            mistakes (gameState (snd (processInput now rnd input s))) = mistakes (gameState s) + 1 \<and>
            correctWords (gameState (snd (processInput now rnd input s)))
              = correctWords (gameState s)"
    using processInput_incorrect(1,2)[OF w, of input now] by simp
  have c: "length input < length (currentWord (gameState s)) \<longrightarrow>
            processInput now rnd input s
              = (Inr \<lparr> isCorrect = False, timeTaken = wordElapsed now s,
                       word = currentWord (gameState s) \<rparr>,
                 s\<lparr> gameState := (gameState s)\<lparr> userInput := input \<rparr> \<rparr>)"
    using processInput_midword[of input s now rnd] by simp
  from a b c show ?thesis by blast
qed


theorem processInput_check_order_witness:
  "wordSourceOk easySession \<and>
   ''the'' = currentWord (gameState easySession) \<and>
   fst (processInput 1000 0 ''the'' easySession)
     = Inr \<lparr> isCorrect = True, timeTaken = 1, word = ''the'' \<rparr> \<and>
   ''thx'' \<noteq> currentWord (gameState easySession) \<and>
   length (currentWord (gameState easySession)) \<le> length ''thx'' \<and>
   fst (processInput 1000 0 ''thx'' easySession)
     = Inr \<lparr> isCorrect = False, timeTaken = 1, word = ''the'' \<rparr> \<and>
   mistakes (gameState (snd (processInput 1000 0 ''thx'' easySession))) = 1 \<and>
   length ''th'' < length (currentWord (gameState easySession)) \<and>
   processInput 1000 0 ''th'' easySession
     = (Inr \<lparr> isCorrect = False, timeTaken = 1, word = ''the'' \<rparr>,
        easySession\<lparr> gameState := (gameState easySession)\<lparr> userInput := ''th'' \<rparr> \<rparr>)"
proof -
  have h: "wordSourceOk easySession" by code_simp
  have v: "currentWord (gameState easySession) = ''the'' \<and> wordElapsed 1000 easySession = 1 \<and>
           mistakes (gameState easySession) = 0"
    by code_simp
  have a: "fst (processInput 1000 0 ''the'' easySession)
             = Inr \<lparr> isCorrect = True, timeTaken = 1, word = ''the'' \<rparr>"
    using processInput_check_order[OF h, where input = "''the''" and now = 1000 and rnd = 0] v
    by simp
  have b: "fst (processInput 1000 0 ''thx'' easySession)
             = Inr \<lparr> isCorrect = False, timeTaken = 1, word = ''the'' \<rparr> \<and>
           mistakes (gameState (snd (processInput 1000 0 ''thx'' easySession))) = 1"
    using processInput_check_order[OF h, where input = "''thx''" and now = 1000 and rnd = 0] v
    by simp
  have c: "processInput 1000 0 ''th'' easySession
             = (Inr \<lparr> isCorrect = False, timeTaken = 1, word = ''the'' \<rparr>,
                easySession\<lparr> gameState := (gameState easySession)\<lparr> userInput := ''th'' \<rparr> \<rparr>)"
    using processInput_check_order[OF h, where input = "''th''" and now = 1000 and rnd = 0] v
    by simp
  from h v a b c show ?thesis by simp
qed

subsection \<open>Multiplier\<close>

text \<open>
  Claim C6. For every streak \<open>n \<ge> 0\<close> the multiplier \<open>newMultiplier n\<close> derived from it
  lies between 1 and 5, \<open>newMultiplier\<close> is non-decreasing, and \<open>newMultiplier 10\<close> is
  1.5. The state holds this function of its streak after any run of consecutive correctly
  typed words, so after 10 of them from streak 0 the streak is 10 and the multiplier 1.5.
\<close>

theorem multiplier_cap:
  assumes "0 \<le> n" and "n \<le> m"
    and "wordSourceOk s" and "0 \<le> streak (gameState s)" and "es \<noteq> []"
  shows "1 \<le> newMultiplier n \<and> newMultiplier n \<le> 5 \<and>
         newMultiplier n \<le> newMultiplier m \<and>
         newMultiplier 10 = 3 / 2 \<and>
         streak (gameState (typeCorrectly es s)) = streak (gameState s) + int (length es) \<and>
         multiplier (gameState (typeCorrectly es s))
           = newMultiplier (streak (gameState (typeCorrectly es s))) \<and>
         1 \<le> multiplier (gameState (typeCorrectly es s)) \<and>
         multiplier (gameState (typeCorrectly es s)) \<le> 5 \<and>
         (streak (gameState (typeCorrectly es s)) = 10 \<longrightarrow>
            multiplier (gameState (typeCorrectly es s)) = 3 / 2)"
proof -
  have a: "streak (gameState (typeCorrectly es s)) = streak (gameState s) + int (length es)"
    and b: "multiplier (gameState (typeCorrectly es s))
              = newMultiplier (streak (gameState s) + int (length es))"
    using typeCorrectly_streak[OF assms(3,5)] by simp_all
  have c: "0 \<le> streak (gameState s) + int (length es)" using assms(4) by simp
  have d: "newMultiplier 10 = 3 / 2" by (simp add: newMultiplier_def)
  show ?thesis
    using a b newMultiplier_lower[OF c] newMultiplier_lower[OF assms(1)] newMultiplier_upper
      newMultiplier_mono[OF assms(2)] d
    by (auto simp del: of_nat_add)
qed

theorem multiplier_cap_witness:
  "(0::int) \<le> 9 \<and> (9::int) \<le> 10 \<and>
   wordSourceOk easySession \<and> 0 \<le> streak (gameState easySession) \<and>
   replicate 10 (1000::int, 0::rat) \<noteq> [] \<and>
   1 \<le> newMultiplier 9 \<and> newMultiplier 9 \<le> newMultiplier 10 \<and>
   streak (gameState (typeCorrectly (replicate 10 (1000, 0)) easySession)) = 10 \<and>
   multiplier (gameState (typeCorrectly (replicate 10 (1000, 0)) easySession)) = 3 / 2"
proof -
  have h1: "(0::int) \<le> 9" and h2: "(9::int) \<le> 10" by simp_all
  have h3: "wordSourceOk easySession" by code_simp
  have h4: "0 \<le> streak (gameState easySession)" by code_simp
  have h5: "replicate 10 (1000::int, 0::rat) \<noteq> []" by simp
  have s0: "streak (gameState easySession) = 0" by code_simp
  note t = multiplier_cap[OF h1 h2 h3 h4 h5]
  have a: "streak (gameState (typeCorrectly (replicate 10 (1000, 0)) easySession)) = 10"
    using t s0 by simp
  have b: "multiplier (gameState (typeCorrectly (replicate 10 (1000, 0)) easySession)) = 3 / 2"
    using t a by blast
  have c: "1 \<le> newMultiplier 9 \<and> newMultiplier 9 \<le> newMultiplier 10" using t by blast
  show ?thesis using h1 h2 h3 h4 h5 a b c by blast
qed

subsection \<open>The error classifier\<close>

text \<open>
  Claim C5, amended. \<open>classifyError\<close> is total and is the ordered rule list of the
  specification applied to the two characters after each is lower-cased: a character
  whose lower-case form is absent from the table gives \<open>visual\<close>; otherwise, with \<open>d\<close>
  the Manhattan distance of the two keys, \<open>d = 1\<close> gives \<open>finger_slip\<close>, else different
  fingers and \<open>d \<le> 2\<close> give \<open>finger_confusion\<close>, else a time under 0.1 seconds gives
  \<open>timing\<close>, else \<open>d > 3\<close> gives \<open>visual\<close>, else \<open>muscle_memory\<close>. Expected \<open>f\<close>
  against actual \<open>g\<close> is a \<open>finger_slip\<close> at every time.
\<close>

theorem classifyError_rules:
  "(\<exists>p. classifyError expected actual t = Some p \<and>
        pattern_type p = classify_spec (toLowerCase expected) (toLowerCase actual) t) \<and>
   map_option pattern_type (classifyError (CHR ''f'') (CHR ''g'') t) = Some finger_slip"
proof -
  have a: "classifyError expected actual t
             = patternOf (classify_spec (toLowerCase expected) (toLowerCase actual) t)"
    by (simp add: classifyError_def classify_spec_def Let_def split: option.splits)
  have f: "keyboardLayout (toLowerCase (CHR ''f'')) = Some \<lparr> row = 2, col = 3, finger = ''left-index'' \<rparr>"
    by code_simp
  have g: "keyboardLayout (toLowerCase (CHR ''g'')) = Some \<lparr> row = 2, col = 4, finger = ''left-index'' \<rparr>"
    by code_simp
  have b: "classifyError (CHR ''f'') (CHR ''g'') t = patternOf finger_slip"
    by (simp add: classifyError_def f g)
  have c: "map_option pattern_type (patternOf finger_slip) = Some finger_slip"
    using patternOf_total[of finger_slip] by auto
  show ?thesis using a b c patternOf_total by simp
qed

text \<open>
  Claim C5 as stated fails on an upper-case letter: \<open>F\<close> is not a key of the table, so
  the rules as stated give \<open>visual\<close>, while the code looks up \<open>f\<close> and answers
  \<open>finger_slip\<close> for \<open>F\<close> against \<open>g\<close>.
\<close>

theorem classifyError_uppercase_counterexample:
  "keyboardLayout (CHR ''F'') = None \<and>
   classify_spec (CHR ''F'') (CHR ''g'') 1 = visual \<and>
   map_option pattern_type (classifyError (CHR ''F'') (CHR ''g'') 1) = Some finger_slip"
  by code_simp

subsection \<open>The session timer\<close>

text \<open>
  Claim C7. In a Running session with a time remaining that is not negative, one
  emission of a live session timer leaves \<open>max 0 (timeRemaining - 1)\<close>, which is not
  negative; the session is Over afterwards exactly when the time remaining was positive
  and has become 0, and is Running otherwise. A session that \<open>startGame\<close> has started with
  a duration of 60 is Over with no time remaining after 60 emissions of its session
  timer, and is Running with \<open>60 - m\<close> remaining after \<open>m < 60\<close> of them.
\<close>

theorem session_timer_countdown:
  "(Running (gameState s) \<and> k \<in> set (liveGameTimers s) \<and> 0 \<le> timeRemaining (gameState s) \<longrightarrow>
      timeRemaining (gameState (gameTimerFire k s)) = max 0 (timeRemaining (gameState s) - 1) \<and>
      0 \<le> timeRemaining (gameState (gameTimerFire k s)) \<and>
      (Over (gameState (gameTimerFire k s)) \<longleftrightarrow>
         0 < timeRemaining (gameState s) \<and> timeRemaining (gameState (gameTimerFire k s)) = 0) \<and>
      (Running (gameState (gameTimerFire k s)) \<longleftrightarrow> \<not> Over (gameState (gameTimerFire k s)))) \<and>
   (fst (startGame now rnd settings s0) = Inr () \<and>
    gameDuration (currentSettings (snd (startGame now rnd settings s0))) = 60 \<longrightarrow>
      (\<exists>h. timerSubscription (snd (startGame now rnd settings s0)) = Some h \<and>
           Over (gameState (runTicks (replicate 60 (GameTick h)) (snd (startGame now rnd settings s0)))) \<and>
           timeRemaining (gameState (runTicks (replicate 60 (GameTick h))
                                       (snd (startGame now rnd settings s0)))) = 0 \<and>
           (\<forall>m<60. Running (gameState (runTicks (replicate m (GameTick h))
                                          (snd (startGame now rnd settings s0)))) \<and>
                   timeRemaining (gameState (runTicks (replicate m (GameTick h))
                                               (snd (startGame now rnd settings s0))))
                     = of_nat (60 - m))))"
proof -
  have one: "timeRemaining (gameState (gameTimerFire k s)) = max 0 (timeRemaining (gameState s) - 1) \<and>
      0 \<le> timeRemaining (gameState (gameTimerFire k s)) \<and>
      (Over (gameState (gameTimerFire k s)) \<longleftrightarrow>
         0 < timeRemaining (gameState s) \<and> timeRemaining (gameState (gameTimerFire k s)) = 0) \<and>
      (Running (gameState (gameTimerFire k s)) \<longleftrightarrow> \<not> Over (gameState (gameTimerFire k s)))"
    if r: "Running (gameState s)" and l: "k \<in> set (liveGameTimers s)"
      and t: "0 \<le> timeRemaining (gameState s)"
  proof -
    consider (zero) "timeRemaining (gameState s) = 0"
      | (last) "0 < timeRemaining (gameState s)" "timeRemaining (gameState s) \<le> 1"
      | (more) "1 < timeRemaining (gameState s)"
      using t by linarith
    then show ?thesis
    proof cases
      case zero
      then have "gameState (gameTimerFire k s) = gameState s"
        using gameTimerFire_zero[OF l] by simp
      then show ?thesis using zero r by (simp add: Running_def Over_def)
    next
      case last
      from gameTimerFire_last[OF r l last] last show ?thesis
        by (simp add: Running_def Over_def)
    next
      case more
      from gameTimerFire_decrement[OF r l more] more r show ?thesis
        by (auto simp: Running_def Over_def)
    qed
  qed
  have run: "\<exists>h. timerSubscription (snd (startGame now rnd settings s0)) = Some h \<and>
           Over (gameState (runTicks (replicate 60 (GameTick h)) (snd (startGame now rnd settings s0)))) \<and>
           timeRemaining (gameState (runTicks (replicate 60 (GameTick h))
                                       (snd (startGame now rnd settings s0)))) = 0 \<and>
           (\<forall>m<60. Running (gameState (runTicks (replicate m (GameTick h))
                                          (snd (startGame now rnd settings s0)))) \<and>
                   timeRemaining (gameState (runTicks (replicate m (GameTick h))
                                               (snd (startGame now rnd settings s0))))
                     = of_nat (60 - m))"
    if ok: "fst (startGame now rnd settings s0) = Inr ()"
      and d: "gameDuration (currentSettings (snd (startGame now rnd settings s0))) = 60"
  proof -
    let ?s = "snd (startGame now rnd settings s0)"
    obtain h where h: "timerSubscription ?s = Some h" "h \<in> set (liveGameTimers ?s)"
      using startGame_started(3)[OF ok] by blast
    have r: "Running (gameState ?s)" using startGame_started(1)[OF ok] .
    have t: "timeRemaining (gameState ?s) = of_nat 60"
      using startGame_started(2)[OF ok] d by simp
    note c = countdown[OF r h(2) t]
    have "Over (gameState (runTicks (replicate 60 (GameTick h)) ?s)) \<and>
          timeRemaining (gameState (runTicks (replicate 60 (GameTick h)) ?s)) = 0"
      using c[of 60] by simp
    moreover have "\<forall>m<60. Running (gameState (runTicks (replicate m (GameTick h)) ?s)) \<and>
                   timeRemaining (gameState (runTicks (replicate m (GameTick h)) ?s)) = of_nat (60 - m)"
      using c by simp
    ultimately show ?thesis using h(1) by blast
  qed
  from one run show ?thesis by blast
qed

theorem session_timer_countdown_witness:
  "Running (gameState easySession) \<and> 0 \<in> set (liveGameTimers easySession) \<and>
   0 \<le> timeRemaining (gameState easySession) \<and>
   timeRemaining (gameState (gameTimerFire 0 easySession)) = 59 \<and>
   fst (startGame 0 0 (Some easyBasic) newGameService) = Inr () \<and>
   gameDuration (currentSettings (snd (startGame 0 0 (Some easyBasic) newGameService))) = 60 \<and>
   Over (gameState (runTicks (replicate 60 (GameTick 0)) easySession)) \<and>
   timeRemaining (gameState (runTicks (replicate 60 (GameTick 0)) easySession)) = 0 \<and>
   Running (gameState (runTicks (replicate 59 (GameTick 0)) easySession))"
proof -
  have h1: "Running (gameState easySession) \<and> 0 \<in> set (liveGameTimers easySession) \<and>
            0 \<le> timeRemaining (gameState easySession)"
    by code_simp
  have h2: "fst (startGame 0 0 (Some easyBasic) newGameService) = Inr () \<and>
            gameDuration (currentSettings (snd (startGame 0 0 (Some easyBasic) newGameService))) = 60"
    by code_simp
  have v: "timeRemaining (gameState easySession) = 60 \<and> timerSubscription easySession = Some 0"
    by code_simp
  note t = session_timer_countdown[of easySession 0 0 0 "Some easyBasic" newGameService]
  have a: "timeRemaining (gameState (gameTimerFire 0 easySession)) = 59"
    using t h1 v by simp
  from t h2 obtain h where h: "timerSubscription easySession = Some h"
    "Over (gameState (runTicks (replicate 60 (GameTick h)) easySession))"
    "timeRemaining (gameState (runTicks (replicate 60 (GameTick h)) easySession)) = 0"
    "\<forall>m<60. Running (gameState (runTicks (replicate m (GameTick h)) easySession))"
    unfolding easySession_def[symmetric] by blast
  from h(1) v have h0: "h = 0" by simp
  have "(59::nat) < 60" by simp
  with h(4) have "Running (gameState (runTicks (replicate 59 (GameTick h)) easySession))"
    by blast
  with h1 h2 a h(2,3) show ?thesis unfolding h0 by blast
qed

subsection \<open>The word timer\<close>

text \<open>
  Claim C4 fails on the code. In the session \<open>easySession\<close> (Running, word started at
  time 0, limit 4 seconds) the word timer emits at time 4000, when the elapsed time equals
  the limit: \<^verbatim>\<open>takeWhile\<close> sees \<open>elapsed < timePerWord\<close> false and completes the
  subscription before \<^verbatim>\<open>tap\<close> runs, so \<open>skipWord\<close> is not called; no word is
  committed and no word timer is left.
\<close>

theorem word_timer_expiry_no_skip:
  "Running (gameState easySession) \<and>
   map_of (liveWordTimers easySession) 1 = Some 4 \<and>
   getTimePerWord (difficulty (currentSettings easySession)) = 4 \<and>
   wordElapsed 4000 easySession = 4 \<and>
   gameState (wordTimerFire 1 4000 4000 0 easySession) = gameState easySession \<and>
   totalWords (gameState (wordTimerFire 1 4000 4000 0 easySession)) = 0 \<and>
   mistakes (gameState (wordTimerFire 1 4000 4000 0 easySession)) = 0 \<and>
   liveWordTimers (wordTimerFire 1 4000 4000 0 easySession) = []"
  by code_simp

subsection \<open>Pause and resume\<close>

text \<open>
  Claim C8, amended. \<open>pauseGame\<close> on a Running session gives a Paused one in which
  neither handle of the service is a live subscription; any run of timer emissions
  after it leaves the game state as it is (no decrement of \<open>timeRemaining\<close>, no word
  committed); \<open>pauseGame\<close> again restores the game state of before the pause and starts
  both timers anew. \<open>wordStartTime\<close> is never touched, so after the resume the elapsed
  time of the word is measured from the original start of the word and includes the time
  spent paused.
\<close>

theorem pause_resume:
  assumes "Running (gameState s)"
  shows "Paused (gameState (pauseGame s)) \<and>
         (\<forall>k. timerSubscription (pauseGame s) = Some k \<longrightarrow> k \<notin> set (liveGameTimers (pauseGame s))) \<and>
         (\<forall>k. wordTimerSubscription (pauseGame s) = Some k \<longrightarrow>
               map_of (liveWordTimers (pauseGame s)) k = None) \<and>
         gameState (runTicks ts (pauseGame s)) = gameState (pauseGame s) \<and>
         timeRemaining (gameState (runTicks ts (pauseGame s))) = timeRemaining (gameState s) \<and>
         totalWords (gameState (runTicks ts (pauseGame s))) = totalWords (gameState s) \<and>
         currentWord (gameState (runTicks ts (pauseGame s))) = currentWord (gameState s) \<and>
         gameState (pauseGame (runTicks ts (pauseGame s))) = gameState s \<and>
         (\<exists>k. timerSubscription (pauseGame (runTicks ts (pauseGame s))) = Some k \<and>
              k \<in> set (liveGameTimers (pauseGame (runTicks ts (pauseGame s))))) \<and>
         (\<exists>k. wordTimerSubscription (pauseGame (runTicks ts (pauseGame s))) = Some k \<and>
              map_of (liveWordTimers (pauseGame (runTicks ts (pauseGame s)))) k
                = Some (getTimePerWord (difficulty (currentSettings s)))) \<and>
         wordStartTime (pauseGame (runTicks ts (pauseGame s))) = wordStartTime s \<and>
         wordElapsed now (pauseGame (runTicks ts (pauseGame s))) = wordElapsed now s"
proof -
  let ?g = "gameState s"
  let ?p = "pauseGame s"
  let ?q = "runTicks ts ?p"
  from assms have np: "\<not> isPaused ?g" and pl: "isPlaying ?g" and no: "\<not> isGameOver ?g"
    by (simp_all add: Running_def)
  have pe: "?p = stopTimers (s\<lparr> gameState := ?g\<lparr> isPaused := True \<rparr> \<rparr>)"
    using pauseGame_pause[OF np] .
  have pg: "gameState ?p = ?g\<lparr> isPaused := True \<rparr>"
    and pw: "wordStartTime ?p = wordStartTime s"
    and pc: "currentSettings ?p = currentSettings s"
    by (simp_all add: pe stopTimers_frame)
  have a: "Paused (gameState ?p)" using pl no by (simp add: pg Paused_def)
  have b: "\<forall>k. timerSubscription ?p = Some k \<longrightarrow> k \<notin> set (liveGameTimers ?p)"
    by (simp add: pe stopTimers_frame stopTimers_not_live)
  have c: "\<forall>k. wordTimerSubscription ?p = Some k \<longrightarrow> map_of (liveWordTimers ?p) k = None"
    by (simp add: pe stopTimers_frame stopTimers_not_live)
  have ip: "isPaused (gameState ?p)" by (simp add: pg)
  have qg: "gameState ?q = gameState ?p" and qw: "wordStartTime ?q = wordStartTime s"
    and qc: "currentSettings ?q = currentSettings s"
    using runTicks_paused[OF ip, of ts] pw pc by simp_all
  have iq: "isPaused (gameState ?q)" by (simp add: qg pg)
  have re: "pauseGame ?q
              = startWordTimer (startGameTimer (?q\<lparr> gameState := (gameState ?q)\<lparr> isPaused := False \<rparr> \<rparr>))"
    using pauseGame_resume[OF iq] .
  have rb: "(gameState ?q)\<lparr> isPaused := False \<rparr> = ?g"
    using np by (simp add: qg pg)
  have d: "gameState (pauseGame ?q) = ?g"
    by (simp add: re startTimers_facts rb)
  have e: "\<exists>k. timerSubscription (pauseGame ?q) = Some k \<and>
              k \<in> set (liveGameTimers (pauseGame ?q))"
    by (simp add: re startTimers_facts)
  have f: "\<exists>k. wordTimerSubscription (pauseGame ?q) = Some k \<and>
              map_of (liveWordTimers (pauseGame ?q)) k
                = Some (getTimePerWord (difficulty (currentSettings s)))"
    by (simp add: re startTimers_facts qc)
  have g: "wordStartTime (pauseGame ?q) = wordStartTime s"
    by (simp add: re startTimers_facts qw)
  have h: "wordElapsed now (pauseGame ?q) = wordElapsed now s"
    by (simp add: wordElapsed_def g)
  have i: "timeRemaining (gameState ?q) = timeRemaining ?g \<and>
           totalWords (gameState ?q) = totalWords ?g \<and>
           currentWord (gameState ?q) = currentWord ?g"
    by (simp add: qg pg)
  from a b c qg i d e f g h show ?thesis by blast
qed

theorem pause_resume_witness:
  "Running (gameState easySession) \<and>
   Paused (gameState (pauseGame easySession)) \<and>
   timeRemaining (gameState (runTicks [GameTick 0, WordTick 1 1100 1100 0, GameTick 0]
                               (pauseGame easySession))) = 60 \<and>
   gameState (pauseGame (runTicks [GameTick 0, WordTick 1 1100 1100 0, GameTick 0]
                            (pauseGame easySession))) = gameState easySession \<and>
   wordElapsed 5100 (pauseGame (runTicks [GameTick 0, WordTick 1 1100 1100 0, GameTick 0]
                                  (pauseGame easySession))) = roundToDouble (51 / 10)"
proof -
  have h: "Running (gameState easySession)" by code_simp
  have v: "timeRemaining (gameState easySession) = 60 \<and> wordElapsed 5100 easySession = roundToDouble (51 / 10)"
    by code_simp
  note t = pause_resume[OF h, of "[GameTick 0, WordTick 1 1100 1100 0, GameTick 0]" 5100]
  have a: "Paused (gameState (pauseGame easySession))" using t by blast
  have "timeRemaining (gameState (runTicks [GameTick 0, WordTick 1 1100 1100 0, GameTick 0]
                               (pauseGame easySession))) = timeRemaining (gameState easySession)"
    using t by blast
  then have b: "timeRemaining (gameState (runTicks [GameTick 0, WordTick 1 1100 1100 0, GameTick 0]
                               (pauseGame easySession))) = 60"
    using v by (simp only:)
  have c: "gameState (pauseGame (runTicks [GameTick 0, WordTick 1 1100 1100 0, GameTick 0]
                            (pauseGame easySession))) = gameState easySession"
    using t by blast
  have "wordElapsed 5100 (pauseGame (runTicks [GameTick 0, WordTick 1 1100 1100 0, GameTick 0]
                                  (pauseGame easySession))) = wordElapsed 5100 easySession"
    using t by blast
  then have d: "wordElapsed 5100 (pauseGame (runTicks [GameTick 0, WordTick 1 1100 1100 0, GameTick 0]
                                  (pauseGame easySession))) = roundToDouble (51 / 10)"
    using v by (simp only:)
  from h a b c d show ?thesis by blast
qed

text \<open>
  Claim C8 as stated fails: a word started at time 0, paused at 1000 and resumed at 5000,
  has at time 5100 the elapsed time 5.1 seconds (the double nearest to it), not the
  1 second accumulated before the pause plus the 0.1 seconds since the resume.
\<close>

theorem pause_resume_counterexample:
  "Running (gameState easySession) \<and> Paused (gameState (pauseGame easySession)) \<and>
   Running (gameState (pauseGame (pauseGame easySession))) \<and>
   wordElapsed 1000 easySession = 1 \<and>
   wordElapsed 5100 (pauseGame (pauseGame easySession)) = roundToDouble (51 / 10) \<and>
   \<not> (wordElapsed 5100 (pauseGame (pauseGame easySession))
        = wordElapsed 1000 easySession + (5100 - 5000) / 1000)"
  by code_simp

subsection \<open>Custom-text mode\<close>

text \<open>
  Claim C9, amended. \<open>initializeCustomText\<close> makes the word list the words of the
  lower-cased content (its maximal runs of characters that are not white space, the
  no-break space being white space and the Latin-1 capitals having lower cases) with the
  punctuation characters removed from each and the empty results dropped, and sets the
  index to 0. With a word list that is not empty and an index inside it,
  \<open>getNextCustomWord\<close> returns the word at the index and advances the index cyclically,
  so \<open>n\<close> calls serve the list cyclically from the index; the call leaves the game state
  as it is (no transition to Over) and, exactly when the index has wrapped to 0 and the
  \<open>totalWords\<close> of the state it reads is positive, appends one \<open>endGame\<close> callback with a
  delay of 100 milliseconds. During a commit that state is the one before the commit, so
  \<open>totalWords\<close> does not yet count the word being committed; inside \<open>startGame\<close> it is
  the state the previous game left. A commit by \<open>processInput\<close>
  in a Running custom-text session at a wrap with \<open>totalWords > 0\<close> before the commit
  leaves the session Running with that callback scheduled, and the callback makes it Over.
\<close>

theorem custom_text_mode:
  "customTextWords (initializeCustomText ct s)
     = filter (\<lambda>w. w \<noteq> [])
         (map (filter (\<lambda>c. \<not> isPunctuation c)) (words_of (map toLowerCase (content ct)))) \<and>
   customTextIndex (initializeCustomText ct s) = 0 \<and>
   (customTextWords s \<noteq> [] \<and> customTextIndex s < length (customTextWords s) \<longrightarrow>
      fst (getNextCustomWord s) = customTextWords s ! customTextIndex s \<and>
      customTextIndex (snd (getNextCustomWord s))
        = (customTextIndex s + 1) mod length (customTextWords s) \<and>
      fst (serveCustom n s)
        = map (\<lambda>i. customTextWords s ! ((customTextIndex s + i) mod length (customTextWords s)))
            [0..<n] \<and>
      gameState (snd (getNextCustomWord s)) = gameState s \<and>
      scheduledEndGame (snd (getNextCustomWord s))
        = (if customTextIndex (snd (getNextCustomWord s)) = 0 \<and> 0 < totalWords (gameState s)
           then scheduledEndGame s @ [100] else scheduledEndGame s)) \<and>
   (isCustomMode (currentSettings s) \<and> customTextWords s \<noteq> [] \<and> Running (gameState s) \<and>
    (customTextIndex s + 1) mod length (customTextWords s) = 0 \<and> 0 < totalWords (gameState s) \<and>
    length (currentWord (gameState s)) \<le> length input \<longrightarrow>
      Running (gameState (snd (processInput now rnd input s))) \<and>
      scheduledEndGame (snd (processInput now rnd input s)) = scheduledEndGame s @ [100] \<and>
      Over (gameState (endGameTimeoutFire (snd (processInput now rnd input s)))))"
proof -
  have a: "customTextWords (initializeCustomText ct s)
     = filter (\<lambda>w. w \<noteq> [])
         (map (filter (\<lambda>c. \<not> isPunctuation c)) (words_of (map toLowerCase (content ct))))"
    by (simp add: initializeCustomText_def tokenize_words)
  have b: "customTextIndex (initializeCustomText ct s) = 0"
    by (simp add: initializeCustomText_def)
  have c: "fst (getNextCustomWord s) = customTextWords s ! customTextIndex s \<and>
      customTextIndex (snd (getNextCustomWord s))
        = (customTextIndex s + 1) mod length (customTextWords s) \<and>
      fst (serveCustom n s)
        = map (\<lambda>i. customTextWords s ! ((customTextIndex s + i) mod length (customTextWords s)))
            [0..<n] \<and>
      gameState (snd (getNextCustomWord s)) = gameState s \<and>
      scheduledEndGame (snd (getNextCustomWord s))
        = (if customTextIndex (snd (getNextCustomWord s)) = 0 \<and> 0 < totalWords (gameState s)
           then scheduledEndGame s @ [100] else scheduledEndGame s)"
    if ne: "customTextWords s \<noteq> []" and lt: "customTextIndex s < length (customTextWords s)"
    using getNextCustomWord_step[OF ne] serveCustom_cyclic[OF ne lt, of n]
      getNextCustomWord_frame(1)[of s]
    by simp
  have d: "Running (gameState (snd (processInput now rnd input s))) \<and>
      scheduledEndGame (snd (processInput now rnd input s)) = scheduledEndGame s @ [100] \<and>
      Over (gameState (endGameTimeoutFire (snd (processInput now rnd input s))))"
    if cm: "isCustomMode (currentSettings s)" and ne: "customTextWords s \<noteq> []"
      and r: "Running (gameState s)"
      and wrap: "(customTextIndex s + 1) mod length (customTextWords s) = 0"
      and tw: "0 < totalWords (gameState s)"
      and len: "length (currentWord (gameState s)) \<le> length input"
  proof -
    have g: "getNextWord rnd s = (Inr (fst (getNextCustomWord s)), snd (getNextCustomWord s))"
      using getNextWord_custom[OF cm] .
    then have w: "fst (getNextWord rnd s) = Inr (fst (getNextCustomWord s))" by simp
    have sch: "scheduledEndGame (snd (processInput now rnd input s)) = scheduledEndGame s @ [100]"
      using processInput_commit_schedule(1)[OF w len, of now]
        getNextCustomWord_step(3)[OF ne] wrap tw
      by (simp add: g)
    have run: "Running (gameState (snd (processInput now rnd input s)))"
      using processInput_commit_schedule(2,3,4)[OF w len, of now] r by (simp add: Running_def)
    have "scheduledEndGame (snd (processInput now rnd input s)) \<noteq> []" by (simp add: sch)
    from endGameTimeoutFire_Over[OF this] sch run show ?thesis by simp
  qed
  show ?thesis
  proof (intro conjI impI)
    show "customTextWords (initializeCustomText ct s)
     = filter (\<lambda>w. w \<noteq> [])
         (map (filter (\<lambda>c. \<not> isPunctuation c)) (words_of (map toLowerCase (content ct))))"
      by (rule a)
    show "customTextIndex (initializeCustomText ct s) = 0" by (rule b)
  qed (use c d in simp_all)
qed

theorem custom_text_mode_witness:
  "customTextWords
     (initializeCustomText
        \<lparr> text_id = ''latin'',
          content = [CHR ''a'', CHR 0xA0, CHR ''B'', CHR '' '', CHR 0xC9, CHR ''t'', CHR 0xE9,
                     CHR ''.''] \<rparr>
        newGameService)
     = [''a'', ''b'', [CHR 0xE9, CHR ''t'', CHR 0xE9]] \<and>
   customTextWords customSession = [''hello'', ''world'', ''foobar''] \<and>
   customTextWords customSession \<noteq> [] \<and>
   customTextIndex customSession < length (customTextWords customSession) \<and>
   fst (serveCustom 4 customSession) = [''foobar'', ''hello'', ''world'', ''foobar''] \<and>
   isCustomMode (currentSettings customSession) \<and> Running (gameState customSession) \<and>
   (customTextIndex customSession + 1) mod length (customTextWords customSession) = 0 \<and>
   0 < totalWords (gameState customSession) \<and>
   length (currentWord (gameState customSession)) \<le> length ''world'' \<and>
   Running (gameState (snd (processInput 2000 0 ''world'' customSession))) \<and>
   scheduledEndGame (snd (processInput 2000 0 ''world'' customSession)) = [100] \<and>
   Over (gameState (endGameTimeoutFire (snd (processInput 2000 0 ''world'' customSession))))"
proof -
  have h1: "customTextWords customSession = [''hello'', ''world'', ''foobar''] \<and>
            customTextIndex customSession = 2 \<and> scheduledEndGame customSession = []"
    by code_simp
  have h2: "isCustomMode (currentSettings customSession) \<and> Running (gameState customSession) \<and>
            0 < totalWords (gameState customSession) \<and>
            length (currentWord (gameState customSession)) \<le> length ''world''"
    by code_simp
  have h0: "filter (\<lambda>w. w \<noteq> [])
              (map (filter (\<lambda>c. \<not> isPunctuation c))
                 (words_of (map toLowerCase
                    (content \<lparr> text_id = ''latin'',
                       content = [CHR ''a'', CHR 0xA0, CHR ''B'', CHR '' '', CHR 0xC9, CHR ''t'',
                                  CHR 0xE9, CHR ''.''] \<rparr>))))
            = [''a'', ''b'', [CHR 0xE9, CHR ''t'', CHR 0xE9]]"
    by code_simp
  have l: "customTextWords
     (initializeCustomText
        \<lparr> text_id = ''latin'',
          content = [CHR ''a'', CHR 0xA0, CHR ''B'', CHR '' '', CHR 0xC9, CHR ''t'', CHR 0xE9,
                     CHR ''.''] \<rparr>
        newGameService)
     = [''a'', ''b'', [CHR 0xE9, CHR ''t'', CHR 0xE9]]"
    using custom_text_mode[of "\<lparr> text_id = ''latin'',
          content = [CHR ''a'', CHR 0xA0, CHR ''B'', CHR '' '', CHR 0xC9, CHR ''t'', CHR 0xE9,
                     CHR ''.''] \<rparr>" newGameService]
    unfolding h0 by blast
  note t = custom_text_mode[of sampleText customSession 4 "''world''" 2000 0]
  have a: "fst (serveCustom 4 customSession) = [''foobar'', ''hello'', ''world'', ''foobar'']"
    using t h1 by (simp add: upt_rec)
  have b: "Running (gameState (snd (processInput 2000 0 ''world'' customSession))) \<and>
           scheduledEndGame (snd (processInput 2000 0 ''world'' customSession)) = [100] \<and>
           Over (gameState (endGameTimeoutFire (snd (processInput 2000 0 ''world'' customSession))))"
    using t h1 h2 by simp
  from l h1 h2 a b show ?thesis by simp
qed

text \<open>
  Claim C9 as stated fails at a wrap during the first commit. In a session on the text
  \<open>hello world\<close> the word \<open>hello\<close> is typed: one word has been completed and the index
  has wrapped back to 0, yet no end of the session is scheduled, because the counter that
  \<open>getNextCustomWord\<close> reads is still 0.
\<close>

theorem custom_text_first_wrap_counterexample:
  "Running (gameState twoWordSession) \<and>
   customTextWords twoWordSession = [''hello'', ''world''] \<and>
   currentWord (gameState twoWordSession) = ''hello'' \<and>
   customTextIndex twoWordSession = 1 \<and>
   fst (processInput 1000 0 ''hello'' twoWordSession)
     = Inr \<lparr> isCorrect = True, timeTaken = 1, word = ''hello'' \<rparr> \<and>
   correctWords (gameState (snd (processInput 1000 0 ''hello'' twoWordSession))) = 1 \<and>
   totalWords (gameState (snd (processInput 1000 0 ''hello'' twoWordSession))) = 1 \<and>
   customTextIndex (snd (processInput 1000 0 ''hello'' twoWordSession)) = 0 \<and>
   scheduledEndGame (snd (processInput 1000 0 ''hello'' twoWordSession)) = [] \<and>
   Running (gameState (snd (processInput 1000 0 ''hello'' twoWordSession)))"
  by code_simp

subsection \<open>\<open>processInput\<close> outside the Running phase\<close>

text \<open>
  Claim C10. \<open>processInput\<close> has no phase guard. In a session that is not Running its
  result is the one the same session with the flags of a Running one yields, with the
  flags put back; it is never rejected; an input shorter than the current word is stored.
  When the current word is empty every call commits a word and fetches the next one: the
  empty input is a correct commit (score, streak, \<open>correctWords\<close> and \<open>totalWords\<close>
  are updated), any other input an incorrect one.
\<close>

theorem processInput_no_phase_guard:
  assumes "\<not> Running (gameState s)" and "wordSourceOk s"
  shows "fst (processInput now rnd input s)
           = fst (processInput now rnd input (s\<lparr> gameState := withFlags True False False (gameState s) \<rparr>)) \<and>
         gameState (snd (processInput now rnd input s))
           = withFlags (isPlaying (gameState s)) (isGameOver (gameState s)) (isPaused (gameState s))
               (gameState (snd (processInput now rnd input
                  (s\<lparr> gameState := withFlags True False False (gameState s) \<rparr>)))) \<and>
         (\<exists>r. fst (processInput now rnd input s) = Inr r) \<and>
         (length input < length (currentWord (gameState s)) \<longrightarrow>
            userInput (gameState (snd (processInput now rnd input s))) = input) \<and>
         (currentWord (gameState s) = [] \<longrightarrow>
            (\<exists>w. fst (getNextWord rnd s) = Inr w \<and>
                 currentWord (gameState (snd (processInput now rnd input s))) = w) \<and>
            totalWords (gameState (snd (processInput now rnd input s)))
              = totalWords (gameState s) + 1 \<and>
            (input = [] \<longrightarrow>
               fst (processInput now rnd input s)
                 = Inr \<lparr> isCorrect = True, timeTaken = wordElapsed now s, word = [] \<rparr> \<and>
               correctWords (gameState (snd (processInput now rnd input s)))
                 = correctWords (gameState s) + 1 \<and>
               streak (gameState (snd (processInput now rnd input s))) = streak (gameState s) + 1 \<and>
               score (gameState (snd (processInput now rnd input s)))
                 = score (gameState s)
                   + Math_round (of_int (timeBonus (wordElapsed now s)
                                         + streakBonus (streak (gameState s)))
                                 * multiplier (gameState s))) \<and>
            (input \<noteq> [] \<longrightarrow>
               fst (processInput now rnd input s)
                 = Inr \<lparr> isCorrect = False, timeTaken = wordElapsed now s, word = [] \<rparr> \<and>
               mistakes (gameState (snd (processInput now rnd input s)))
                 = mistakes (gameState s) + 1 \<and>
               streak (gameState (snd (processInput now rnd input s))) = 0 \<and>
               multiplier (gameState (snd (processInput now rnd input s))) = 1 \<and>
               score (gameState (snd (processInput now rnd input s))) = score (gameState s)))"
proof -
  let ?g = "gameState s"
  let ?r = "s\<lparr> gameState := withFlags True False False ?g \<rparr>"
  let ?orig = "withFlags (isPlaying ?g) (isGameOver ?g) (isPaused ?g)"
  have rb: "?r\<lparr> gameState := ?orig (gameState ?r) \<rparr> = s"
    by (simp add: withFlags_def)
  have a: "fst (processInput now rnd input s) = fst (processInput now rnd input ?r)"
    using processInput_flags(1)[of now rnd input "isPlaying ?g" "isGameOver ?g" "isPaused ?g" ?r]
    by (simp only: rb)
  have b: "gameState (snd (processInput now rnd input s))
             = ?orig (gameState (snd (processInput now rnd input ?r)))"
    using processInput_flags(2)[of now rnd input "isPlaying ?g" "isGameOver ?g" "isPaused ?g" ?r]
    by (simp only: rb)
  obtain w where w: "fst (getNextWord rnd s) = Inr w"
    using getNextWord_ok[OF assms(2)] by blast
  have c: "\<exists>r. fst (processInput now rnd input s) = Inr r"
  proof (cases "input = currentWord ?g")
    case True
    then show ?thesis using processInput_currentWord(1)[OF w, of now] by simp
  next
    case False
    show ?thesis
    proof (cases "length (currentWord ?g) \<le> length input")
      case True
      then show ?thesis using processInput_incorrect(1)[OF w False, of now] by simp
    next
      case False
      then show ?thesis using processInput_midword[of input s now rnd] by simp
    qed
  qed
  have d: "length input < length (currentWord ?g) \<longrightarrow>
            userInput (gameState (snd (processInput now rnd input s))) = input"
    using processInput_midword[of input s now rnd] by simp
  have e1: "currentWord ?g = [] \<Longrightarrow> input = [] \<Longrightarrow>
              fst (processInput now rnd input s)
                 = Inr \<lparr> isCorrect = True, timeTaken = wordElapsed now s, word = [] \<rparr> \<and>
              gameState (snd (processInput now rnd input s)) =
                ?g\<lparr> score := score ?g +
                       Math_round (of_int (baseScore [] + timeBonus (wordElapsed now s)
                                           + streakBonus (streak ?g)) * multiplier ?g),
                     correctWords := correctWords ?g + 1,
                     totalWords := totalWords ?g + 1,
                     streak := streak ?g + 1,
                     multiplier := newMultiplier (streak ?g + 1),
                     userInput := [],
                     wordsTyped := wordsTyped ?g @ [Nil],
                     currentWord := w \<rparr>"
    using processInput_currentWord(1,2)[OF w, of now] by simp
  have e2: "currentWord ?g = [] \<Longrightarrow> input \<noteq> [] \<Longrightarrow>
              fst (processInput now rnd input s)
                 = Inr \<lparr> isCorrect = False, timeTaken = wordElapsed now s, word = [] \<rparr> \<and>
              gameState (snd (processInput now rnd input s)) =
                ?g\<lparr> totalWords := totalWords ?g + 1,
                     mistakes := mistakes ?g + 1,
                     streak := 0,
                     multiplier := 1,
                     userInput := [],
                     wordsTyped := wordsTyped ?g @ [Nil],
                     currentWord := w \<rparr>"
    using processInput_incorrect(1,2)[OF w, of input now] by simp
  have e: "currentWord ?g = [] \<longrightarrow>
            (\<exists>w. fst (getNextWord rnd s) = Inr w \<and>
                 currentWord (gameState (snd (processInput now rnd input s))) = w) \<and>
            totalWords (gameState (snd (processInput now rnd input s))) = totalWords ?g + 1 \<and>
            (input = [] \<longrightarrow>
               fst (processInput now rnd input s)
                 = Inr \<lparr> isCorrect = True, timeTaken = wordElapsed now s, word = [] \<rparr> \<and>
               correctWords (gameState (snd (processInput now rnd input s))) = correctWords ?g + 1 \<and>
               streak (gameState (snd (processInput now rnd input s))) = streak ?g + 1 \<and>
               score (gameState (snd (processInput now rnd input s)))
                 = score ?g + Math_round (of_int (timeBonus (wordElapsed now s)
                                                  + streakBonus (streak ?g)) * multiplier ?g)) \<and>
            (input \<noteq> [] \<longrightarrow>
               fst (processInput now rnd input s)
                 = Inr \<lparr> isCorrect = False, timeTaken = wordElapsed now s, word = [] \<rparr> \<and>
               mistakes (gameState (snd (processInput now rnd input s))) = mistakes ?g + 1 \<and>
               streak (gameState (snd (processInput now rnd input s))) = 0 \<and>
               multiplier (gameState (snd (processInput now rnd input s))) = 1 \<and>
               score (gameState (snd (processInput now rnd input s))) = score ?g)"
  proof (cases "input = []")
    case True
    show ?thesis using e1[OF _ True] w True by (auto simp: baseScore_def)
  next
    case False
    show ?thesis using e2[OF _ False] w False by auto
  qed
  from a b c d e show ?thesis by blast
qed

theorem processInput_no_phase_guard_witness:
  "\<not> Running (gameState newGameService) \<and> wordSourceOk newGameService \<and>
   Idle (gameState newGameService) \<and> currentWord (gameState newGameService) = [] \<and>
   fst (processInput 1000 0 ''x'' newGameService)
     = Inr \<lparr> isCorrect = False, timeTaken = 1, word = [] \<rparr> \<and>
   totalWords (gameState (snd (processInput 1000 0 ''x'' newGameService))) = 1 \<and>
   mistakes (gameState (snd (processInput 1000 0 ''x'' newGameService))) = 1 \<and>
   currentWord (gameState (snd (processInput 1000 0 ''x'' newGameService))) = ''about''"
proof -
  have h1: "\<not> Running (gameState newGameService)" by code_simp
  have h2: "wordSourceOk newGameService" by code_simp
  have h3: "Idle (gameState newGameService) \<and> currentWord (gameState newGameService) = []"
    by code_simp
  have v: "fst (getNextWord 0 newGameService) = Inr ''about'' \<and> wordElapsed 1000 newGameService = 1 \<and>
           totalWords (gameState newGameService) = 0 \<and> mistakes (gameState newGameService) = 0"
    by code_simp
  have x: "''x'' \<noteq> []" by simp
  from processInput_no_phase_guard[OF h1 h2, of 1000 0 "''x''"] h3 v x
  have "fst (processInput 1000 0 ''x'' newGameService)
          = Inr \<lparr> isCorrect = False, timeTaken = 1, word = [] \<rparr> \<and>
        totalWords (gameState (snd (processInput 1000 0 ''x'' newGameService))) = 1 \<and>
        mistakes (gameState (snd (processInput 1000 0 ''x'' newGameService))) = 1 \<and>
        currentWord (gameState (snd (processInput 1000 0 ''x'' newGameService))) = ''about''"
    by auto
  with h1 h2 h3 show ?thesis by blast
qed

end
